theory Spec2Isabelle
  imports Main
begin

section \<open>Conventions of the embedding\<close>

text \<open>
  The service is JavaScript on Node. The embedding uses
  \<^item> \<^typ>\<open>string\<close> for JavaScript strings whose code units are below 256 (HTTP header
    values are exactly that; file and folder names are modelled on the same alphabet);
  \<^item> \<^typ>\<open>int\<close> for JavaScript numbers that hold integers, and \<^typ>\<open>int option\<close> where the
    source can produce \<open>NaN\<close> (\<open>None\<close> is \<open>NaN\<close>: every comparison with it is false);
  \<^item> \<^typ>\<open>int\<close> for a \<open>Date\<close> used as an instant (milliseconds since the epoch), and a
    record of calendar fields where the source reads \<open>getDate()\<close> and \<open>getMonth()\<close>;
  \<^item> explicit state passing for the durable store (MongoDB), the volatile store (Redis)
    and the storage backend; every \<open>throw\<close> is an \<open>Inl\<close> value.
\<close>

datatype UserRole = FREE | PREMIUM | ADMIN

datatype StorageTier = HOT | COLD

text \<open>
  \<open>userSchema.methods.isPremiumOrAdmin\<close> and \<open>isAdmin\<close> (the User model, which follows
  the UploadSession model in models/UploadSession.js).
\<close>

definition isPremiumOrAdmin :: "UserRole \<Rightarrow> bool" where
  "isPremiumOrAdmin r = (r = PREMIUM \<or> r = ADMIN)"

definition isAdmin :: "UserRole \<Rightarrow> bool" where
  "isAdmin r = (r = ADMIN)"

section \<open>JavaScript string operations\<close>

text \<open>\<open>s.startsWith(p)\<close>.\<close>

definition startsWith :: "string \<Rightarrow> string \<Rightarrow> bool" where
  "startsWith s p = (take (length p) s = p)"

text \<open>
  The first occurrence of \<open>pat\<close> in a string: the text before it and the text after it.
\<close>

fun find_sub :: "string \<Rightarrow> string \<Rightarrow> (string \<times> string) option" where
  "find_sub pat [] = (if pat = [] then Some ([], []) else None)"
| "find_sub pat (c # cs) =
     (if startsWith (c # cs) pat then Some ([], drop (length pat) (c # cs))
      else (case find_sub pat cs of
              None \<Rightarrow> None
            | Some (pre, post) \<Rightarrow> Some (c # pre, post)))"

text \<open>
  The replacement text of \<open>String.prototype.replace\<close> with a string pattern
  (GetSubstitution with no capture groups): \<open>$$\<close> is a dollar sign, \<open>$&\<close> the matched
  text, \<open>$`\<close> the text before the match and \<open>$'\<close> the text after it; every other
  character stands for itself.
\<close>

fun expand_replacement :: "string \<Rightarrow> string \<Rightarrow> string \<Rightarrow> string \<Rightarrow> string" where
  "expand_replacement m pre post [] = []"
| "expand_replacement m pre post [c] = [c]"
| "expand_replacement m pre post (c # d # r) =
     (if c = CHR ''$'' then
        (if d = CHR ''$'' then CHR ''$'' # expand_replacement m pre post r
         else if d = CHR ''&'' then m @ expand_replacement m pre post r
         else if d = CHR 0x60 then pre @ expand_replacement m pre post r
         else if d = CHR 0x27 then post @ expand_replacement m pre post r
         else c # expand_replacement m pre post (d # r))
      else c # expand_replacement m pre post (d # r))"

text \<open>\<open>s.replace(pat, repl)\<close> with a string pattern: the first occurrence only.\<close>

definition js_replace :: "string \<Rightarrow> string \<Rightarrow> string \<Rightarrow> string" where
  "js_replace s pat repl =
     (case find_sub pat s of
        None \<Rightarrow> s
      | Some (pre, post) \<Rightarrow> pre @ expand_replacement pat pre post repl @ post)"

text \<open>\<open>s.split(sep)\<close> with a one-character separator; the empty string gives one empty part.\<close>

fun split_on :: "char \<Rightarrow> string \<Rightarrow> string list" where
  "split_on sep [] = [[]]"
| "split_on sep (c # cs) =
     (if c = sep then [] # split_on sep cs
      else (case split_on sep cs of
              [] \<Rightarrow> [[c]]
            | p # ps \<Rightarrow> (c # p) # ps))"

text \<open>
  White space as \<open>trim\<close> and \<open>parseInt\<close> see it, among code units below 256: TAB, LF,
  VT, FF, CR, SP and NBSP.
\<close>

definition is_js_space :: "char \<Rightarrow> bool" where
  "is_js_space c = (of_char c \<in> {9, 10, 11, 12, 13, 32, 160 :: nat})"

definition trim :: "string \<Rightarrow> string" where
  "trim s = dropWhile is_js_space (rev (dropWhile is_js_space (rev s)))"

text \<open>\<open>pattern.test(s)\<close> for a regular expression that is a literal text.\<close>

definition contains :: "string \<Rightarrow> string \<Rightarrow> bool" where
  "contains pat s = (find_sub pat s \<noteq> None)"

text \<open>
  Lower case of an ASCII letter (the code unit plus 32, which sets bit 5); other
  characters are unchanged. A literal pattern with the \<open>i\<close> flag whose letters are ASCII
  matches \<open>s\<close> exactly when its lower-case form occurs in the lower-case form of \<open>s\<close>.
\<close>

definition lower_ascii :: "char \<Rightarrow> char" where
  "lower_ascii c =
     (if 65 \<le> (of_char c :: nat) \<and> (of_char c :: nat) \<le> 90
      then (case c of Char b0 b1 b2 b3 b4 b5 b6 b7 \<Rightarrow> Char b0 b1 b2 b3 b4 True b6 b7)
      else c)"

definition contains_ci :: "string \<Rightarrow> string \<Rightarrow> bool" where
  "contains_ci pat s = contains (map lower_ascii pat) (map lower_ascii s)"

definition is_digit :: "char \<Rightarrow> bool" where
  "is_digit c = (48 \<le> (of_char c :: nat) \<and> (of_char c :: nat) \<le> 57)"

definition digit_val :: "char \<Rightarrow> int" where
  "digit_val c = int (of_char c) - 48"

text \<open>
  \<open>parseInt(s, 10)\<close>: leading white space, an optional sign, then the longest run of
  decimal digits; \<open>NaN\<close> (here \<open>None\<close>) when there is no digit. The result is an
  exact integer: it is the number JavaScript computes as long as that stays below
  \<open>2^53\<close> in absolute value; beyond it JavaScript rounds to the nearest double, which
  this definition does not follow.
\<close>

definition parseInt :: "string \<Rightarrow> int option" where
  "parseInt s =
     (let s1 = dropWhile is_js_space s;
          sign = (case s1 of [] \<Rightarrow> 1 | c # _ \<Rightarrow> if c = CHR ''-'' then - 1 else (1::int));
          s2 = (case s1 of [] \<Rightarrow> [] | c # r \<Rightarrow> if c = CHR ''-'' \<or> c = CHR ''+'' then r else s1);
          ds = takeWhile is_digit s2
      in if ds = [] then None
         else Some (sign * foldl (\<lambda>a c. 10 * a + digit_val c) 0 ds))"

text \<open>Decimal rendering of a non-negative integer, as \<open>String(n)\<close> gives it.\<close>

fun dec :: "nat \<Rightarrow> string" where
  "dec n = (if n < 10 then [''0123456789'' ! n]
            else dec (n div 10) @ [''0123456789'' ! (n mod 10)])"

declare dec.simps [simp del]

definition show_int :: "int \<Rightarrow> string" where
  "show_int i = (if i < 0 then CHR ''-'' # dec (nat (- i)) else dec (nat i))"

section \<open>Quota: bandwidth accounting (models/Quota.js)\<close>

text \<open>
  A \<open>Date\<close> as \<open>addBandwidth\<close> sees it: the local calendar fields. \<open>getMonth\<close> is
  0-based (0 = January), \<open>getDate\<close> is the day of the month (1..31).
\<close>

record jsdate =
  getFullYear :: int
  getMonth :: nat
  getDate :: nat

record bandwidth =
  daily :: int
  monthly :: int
  lastReset :: "jsdate option"

text \<open>
  \<open>quotaSchema.methods.addBandwidth\<close>: the daily counter is cleared when
  \<open>now.getDate() !== lastReset.getDate()\<close>; the monthly counter is looked at only inside
  that branch, and cleared when \<open>now.getMonth() !== lastReset.getMonth()\<close>.
\<close>

definition addBandwidth :: "jsdate \<Rightarrow> int \<Rightarrow> bandwidth \<Rightarrow> bandwidth" where
  "addBandwidth now bytes bw =
     (let bw1 =
        (case lastReset bw of
           None \<Rightarrow> bw\<lparr>daily := 0, monthly := 0, lastReset := Some now\<rparr>
         | Some lr \<Rightarrow>
             if getDate now \<noteq> getDate lr then
               (let bw0 = bw\<lparr>daily := 0\<rparr>;
                    bwm = (if getMonth now \<noteq> getMonth lr then bw0\<lparr>monthly := 0\<rparr> else bw0)
                in bwm\<lparr>lastReset := Some now\<rparr>)
             else bw)
      in bw1\<lparr>daily := daily bw1 + bytes, monthly := monthly bw1 + bytes\<rparr>)"

section \<open>Errors and the storage backend\<close>

text \<open>
  The error classes the services throw (the classes of utils/errors.js, which are in
  unnamed/part_003). A value of \<open>app_error\<close> is a constructor call with its arguments:
  \<open>new NotFoundError(resource)\<close>, \<open>new AuthorizationError(message)\<close>,
  \<open>new ValidationError(message)\<close>, \<open>new SessionExpiredError(sessionId)\<close>,
  \<open>new ChunkValidationError(chunkIndex, reason)\<close> and
  \<open>new UploadError(message, statusCode, code)\<close>, whose last two arguments may be left
  out (\<open>None\<close>). \<open>StorageError\<close> stands for an error raised inside the storage
  provider, and \<open>PlainError\<close> for a bare \<open>new Error(message)\<close>.
\<close>

datatype storage_error = NOT_FOUND | IO_ERROR | INTEGRITY_ERROR

datatype app_error =
    NotFoundError string
  | AuthorizationError string
  | ValidationError string
  | SessionExpiredError string
  | ChunkValidationError int string
  | UploadError string "nat option" "string option"
  | StorageError storage_error
  | PlainError string

text \<open>
  The property \<open>code\<close> the constructors set through \<open>AppError\<close>: fixed by the class,
  except for \<open>UploadError\<close>, whose third parameter defaults to \<open>'UPLOAD_ERROR'\<close>. A bare
  \<open>Error\<close> has no \<open>code\<close> (\<open>None\<close>).
\<close>

definition error_code :: "app_error \<Rightarrow> string option" where
  "error_code e =
     (case e of
        NotFoundError _ \<Rightarrow> Some ''NOT_FOUND''
      | AuthorizationError _ \<Rightarrow> Some ''AUTHORIZATION_ERROR''
      | ValidationError _ \<Rightarrow> Some ''VALIDATION_ERROR''
      | SessionExpiredError _ \<Rightarrow> Some ''SESSION_EXPIRED''
      | ChunkValidationError _ _ \<Rightarrow> Some ''CHUNK_VALIDATION_ERROR''
      | UploadError _ _ code \<Rightarrow> (case code of None \<Rightarrow> Some ''UPLOAD_ERROR'' | Some c \<Rightarrow> Some c)
      | StorageError _ \<Rightarrow> Some ''STORAGE_ERROR''
      | PlainError _ \<Rightarrow> None)"

text \<open>
  The property \<open>statusCode\<close>; the second parameter of \<open>UploadError\<close> defaults to 400.
\<close>

definition error_statusCode :: "app_error \<Rightarrow> nat option" where
  "error_statusCode e =
     (case e of
        NotFoundError _ \<Rightarrow> Some 404
      | AuthorizationError _ \<Rightarrow> Some 403
      | ValidationError _ \<Rightarrow> Some 400
      | SessionExpiredError _ \<Rightarrow> Some 410
      | ChunkValidationError _ _ \<Rightarrow> Some 400
      | UploadError _ statusCode _ \<Rightarrow> (case statusCode of None \<Rightarrow> Some 400 | Some s \<Rightarrow> Some s)
      | StorageError _ \<Rightarrow> Some 500
      | PlainError _ \<Rightarrow> None)"

text \<open>
  The property \<open>message\<close>: \<open>`${resource} not found`\<close>,
  \<open>`Chunk ${chunkIndex} validation failed: ${reason}`\<close> and the fixed text of
  \<open>SessionExpiredError\<close>; the other classes pass their first argument on. The message
  an error of the storage provider carries is not in the source files (the provider is
  absent): the default of the \<open>StorageError\<close> constructor stands for it.
\<close>

definition error_message :: "app_error \<Rightarrow> string" where
  "error_message e =
     (case e of
        NotFoundError resource \<Rightarrow> resource @ '' not found''
      | AuthorizationError m \<Rightarrow> m
      | ValidationError m \<Rightarrow> m
      | SessionExpiredError _ \<Rightarrow> ''Upload session expired or not found''
      | ChunkValidationError chunkIndex reason \<Rightarrow>
          ''Chunk '' @ show_int chunkIndex @ '' validation failed: '' @ reason
      | UploadError m _ _ \<Rightarrow> m
      | StorageError _ \<Rightarrow> ''Storage operation failed''
      | PlainError m \<Rightarrow> m)"

type_synonym bytes = "nat list"

text \<open>
  Modelled from the spec: the storage provider (providers/storage/) is not among the
  source files. Section 4.1 of the specification gives its contract: objects keyed by
  \<open>(tier, storageKey)\<close>, a staging area of chunks keyed by \<open>(sessionId, chunkIndex)\<close>,
  \<open>writeChunk\<close>, \<open>assembleChunks\<close> (chunks \<open>0..totalChunks-1\<close> in index order into
  the destination object, returning its size and SHA-256; on failure no destination is
  left), \<open>deleteChunks\<close>, \<open>delete\<close> and \<open>migrate\<close>; errors are typed. SHA-256 itself
  is a parameter.
\<close>

record storage =
  blobs :: "StorageTier \<times> string \<Rightarrow> bytes option"
  staged :: "string \<Rightarrow> int \<Rightarrow> bytes option"

text \<open>
  Modelled from the spec: \<open>writeChunk(sessionId, chunkIndex, bytes)\<close> of the absent
  storage provider; the chunk is staged under \<open>(sessionId, chunkIndex)\<close>.
\<close>

definition writeChunk :: "string \<Rightarrow> int \<Rightarrow> bytes \<Rightarrow> storage \<Rightarrow> storage" where
  "writeChunk sessionId chunkIndex data st =
     st\<lparr>staged := (staged st)(sessionId := (staged st sessionId)(chunkIndex \<mapsto> data))\<rparr>"

text \<open>
  Modelled from the spec: \<open>deleteChunks(sessionId)\<close> of the absent storage provider;
  the staging directory of the session is emptied.
\<close>

definition deleteChunks :: "string \<Rightarrow> storage \<Rightarrow> storage" where
  "deleteChunks sessionId st = st\<lparr>staged := (staged st)(sessionId := Map.empty)\<rparr>"

text \<open>
  Modelled from the spec: \<open>delete(storageKey, tier)\<close> of the absent storage provider.
\<close>

definition storage_delete :: "string \<Rightarrow> StorageTier \<Rightarrow> storage \<Rightarrow> storage" where
  "storage_delete storageKey tier st = st\<lparr>blobs := (blobs st)((tier, storageKey) := None)\<rparr>"

text \<open>
  Modelled from the spec: the body of \<open>assembleChunks\<close> of the absent storage
  provider, the concatenation of the staged chunks \<open>i, i+1, ...\<close> in index order;
  \<open>None\<close> when one is missing.
\<close>

fun collectChunks :: "(int \<Rightarrow> bytes option) \<Rightarrow> int \<Rightarrow> nat \<Rightarrow> bytes option" where
  "collectChunks dir i 0 = Some []"
| "collectChunks dir i (Suc n) =
     (case dir i of
        None \<Rightarrow> None
      | Some c \<Rightarrow> (case collectChunks dir (i + 1) n of
                     None \<Rightarrow> None
                   | Some rest \<Rightarrow> Some (c @ rest)))"

record assembled =
  a_size :: int
  a_hash :: string

text \<open>
  Modelled from the spec: \<open>assembleChunks(sessionId, storageKey, totalChunks, tier)\<close>
  of the absent storage provider, returning \<open>{size, hash}\<close>; a missing chunk is
  \<open>NOT_FOUND\<close> and leaves no destination object.
\<close>

definition assembleChunks ::
  "(bytes \<Rightarrow> string) \<Rightarrow> string \<Rightarrow> string \<Rightarrow> int \<Rightarrow> StorageTier \<Rightarrow> storage
     \<Rightarrow> (storage_error + assembled) \<times> storage" where
  "assembleChunks sha256 sessionId storageKey totalChunks tier st =
     (case collectChunks (staged st sessionId) 0 (nat totalChunks) of
        None \<Rightarrow> (Inl NOT_FOUND, st)
      | Some content \<Rightarrow>
          (Inr \<lparr>a_size = int (length content), a_hash = sha256 content\<rparr>,
           st\<lparr>blobs := (blobs st)((tier, storageKey) \<mapsto> content)\<rparr>))"

text \<open>
  Modelled from the spec: \<open>migrate(storageKey, sourceTier, targetTier)\<close> of the absent
  storage provider; the object leaves the source tier once it is in the target tier.
\<close>

definition migrate ::
  "string \<Rightarrow> StorageTier \<Rightarrow> StorageTier \<Rightarrow> storage \<Rightarrow> storage_error + storage" where
  "migrate storageKey sourceTier targetTier st =
     (case blobs st (sourceTier, storageKey) of
        None \<Rightarrow> Inl NOT_FOUND
      | Some content \<Rightarrow>
          Inr (st\<lparr>blobs := (blobs st)((sourceTier, storageKey) := None,
                                      (targetTier, storageKey) \<mapsto> content)\<rparr>))"

section \<open>Files and tier migration (models/File.js, services/StorageTierService.js)\<close>

datatype MigrationStatus = MigNone | MigPending | MigInProgress | MigCompleted | MigFailed

record File =
  f_id :: string
  f_userId :: string
  f_folderId :: "string option"
  f_storageKey :: string
  f_originalName :: string
  f_mimeType :: string
  f_size :: int
  f_hash :: string
  f_storageTier :: StorageTier
  f_downloads :: int
  f_lastDownloadAt :: "int option"
  f_lastAccessAt :: int
  f_expiresAt :: "int option"
  f_isPublic :: bool
  f_password :: "string option"
  f_isDeleted :: bool
  f_deletedAt :: "int option"
  f_migrationStatus :: MigrationStatus
  f_lastMigrationAt :: "int option"
  f_createdAt :: int

text \<open>The File collection: documents in insertion order, \<open>_id\<close> unique.\<close>

definition findById :: "string \<Rightarrow> File list \<Rightarrow> File option" where
  "findById fileId files = find (\<lambda>f. f_id f = fileId) files"

definition save_file :: "File \<Rightarrow> File list \<Rightarrow> File list" where
  "save_file doc files = map (\<lambda>f. if f_id f = f_id doc then doc else f) files"

definition day_ms :: int where
  "day_ms = 24 * 60 * 60 * 1000"

text \<open>\<open>fileSchema.virtual('isExpired')\<close>: \<open>this.expiresAt && this.expiresAt < new Date()\<close>.\<close>

definition isExpired :: "int \<Rightarrow> File \<Rightarrow> bool" where
  "isExpired now f = (case f_expiresAt f of None \<Rightarrow> False | Some e \<Rightarrow> e < now)"

text \<open>\<open>fileSchema.statics.findColdMigrationCandidates\<close>: the query names no owner role.\<close>

definition findColdMigrationCandidates :: "int \<Rightarrow> int \<Rightarrow> nat \<Rightarrow> File list \<Rightarrow> File list" where
  "findColdMigrationCandidates now daysInactive limit files =
     (let cutoffDate = now - daysInactive * day_ms
      in take limit (sort_key f_lastAccessAt
           (filter (\<lambda>f. f_storageTier f = HOT \<and> f_lastAccessAt f \<le> cutoffDate \<and>
                         \<not> f_isDeleted f \<and>
                         f_migrationStatus f \<noteq> MigPending \<and>
                         f_migrationStatus f \<noteq> MigInProgress) files)))"

text \<open>
  \<open>StorageTierService.shouldMigrateToCold\<close> (``Don't migrate premium user files'').
  No other function of the repository calls it.
\<close>

definition shouldMigrateToCold ::
  "(string \<Rightarrow> UserRole option) \<Rightarrow> int \<Rightarrow> int \<Rightarrow> File \<Rightarrow> bool" where
  "shouldMigrateToCold users now hotToColdDays file =
     (case users (f_userId file) of
        Some role \<Rightarrow>
          if isPremiumOrAdmin role then False
          else if f_storageTier file = COLD then False
          else f_lastAccessAt file < now - hotToColdDays * day_ms
      | None \<Rightarrow>
          if f_storageTier file = COLD then False
          else f_lastAccessAt file < now - hotToColdDays * day_ms)"

record tier_state =
  ts_files :: "File list"
  ts_storage :: storage

datatype migrate_result = AlreadyOnTargetTier | Migrated StorageTier StorageTier

text \<open>\<open>fileSchema.methods.updateTier\<close>.\<close>

definition updateTier :: "int \<Rightarrow> StorageTier \<Rightarrow> File \<Rightarrow> File" where
  "updateTier now newTier f =
     f\<lparr>f_storageTier := newTier, f_lastMigrationAt := Some now,
       f_migrationStatus := MigCompleted\<rparr>"

text \<open>\<open>StorageTierService.migrateFile\<close>.\<close>

definition migrateFile ::
  "int \<Rightarrow> string \<Rightarrow> StorageTier \<Rightarrow> tier_state \<Rightarrow> (app_error + migrate_result) \<times> tier_state" where
  "migrateFile now fileId targetTier st =
     (case findById fileId (ts_files st) of
        None \<Rightarrow> (Inl (PlainError (''File not found: '' @ fileId)), st)
      | Some file \<Rightarrow>
          (let sourceTier = f_storageTier file in
           if sourceTier = targetTier then (Inr AlreadyOnTargetTier, st)
           else
             (let file1 = file\<lparr>f_migrationStatus := MigInProgress\<rparr>;
                  st1 = st\<lparr>ts_files := save_file file1 (ts_files st)\<rparr>
              in case migrate (f_storageKey file1) sourceTier targetTier (ts_storage st1) of
                   Inr sto \<Rightarrow>
                     (Inr (Migrated sourceTier targetTier),
                      st1\<lparr>ts_storage := sto,
                          ts_files := save_file (updateTier now targetTier file1) (ts_files st1)\<rparr>)
                 | Inl e \<Rightarrow>
                     (Inl (StorageError e),
                      st1\<lparr>ts_files := save_file (file1\<lparr>f_migrationStatus := MigFailed\<rparr>)
                                        (ts_files st1)\<rparr>))))"

section \<open>Migration worker, cold pass (class MigrationWorker, unnamed/part_008)\<close>

record worker_config =
  hotToColdDays :: int
  batchSize :: nat

text \<open>
  The \<open>for\<close> loop of \<open>processColdMigrations\<close>: every candidate is handed to
  \<open>migrateFile\<close>; a throw is counted and the loop goes on.
\<close>

fun migrateAll ::
  "int \<Rightarrow> StorageTier \<Rightarrow> File list \<Rightarrow> nat \<times> nat \<Rightarrow> tier_state \<Rightarrow> (nat \<times> nat) \<times> tier_state" where
  "migrateAll now tier [] (migrated, failed) st = ((migrated, failed), st)"
| "migrateAll now tier (file # rest) (migrated, failed) st =
     (case migrateFile now (f_id file) tier st of
        (Inr _, st1) \<Rightarrow> migrateAll now tier rest (migrated + 1, failed) st1
      | (Inl _, st1) \<Rightarrow> migrateAll now tier rest (migrated, failed + 1) st1)"

definition processColdMigrations ::
  "worker_config \<Rightarrow> int \<Rightarrow> tier_state \<Rightarrow> (nat \<times> nat) \<times> tier_state" where
  "processColdMigrations cfg now st =
     (let candidates =
            findColdMigrationCandidates now (hotToColdDays cfg) (batchSize cfg) (ts_files st)
      in migrateAll now COLD candidates (0, 0) st)"

text \<open>A file of a premium owner, on the hot tier, last read 10 days before \<open>now\<close>.\<close>

definition premium_file :: File where
  "premium_file =
     \<lparr>f_id = ''f1'', f_userId = ''u1'', f_folderId = None, f_storageKey = ''u1_1_abc.txt'',
      f_originalName = ''a.txt'', f_mimeType = ''text/plain'', f_size = 3, f_hash = ''00'',
      f_storageTier = HOT, f_downloads = 0, f_lastDownloadAt = None,
      f_lastAccessAt = 0, f_expiresAt = None, f_isPublic = True, f_password = None,
      f_isDeleted = False, f_deletedAt = None, f_migrationStatus = MigNone,
      f_lastMigrationAt = None, f_createdAt = 0\<rparr>"

definition premium_users :: "string \<Rightarrow> UserRole option" where
  "premium_users = [''u1'' \<mapsto> PREMIUM]"

definition premium_state :: tier_state where
  "premium_state =
     \<lparr>ts_files = [premium_file],
      ts_storage = \<lparr>blobs = [(HOT, ''u1_1_abc.txt'') \<mapsto> [1, 2, 3]], staged = (\<lambda>_. Map.empty)\<rparr>\<rparr>"

section \<open>Sliding-window rate limiter (middleware/rateLimiter.js)\<close>

text \<open>
  A Redis sorted set: members with their scores, every member once. Key expiry
  (\<open>expire\<close>) is left to the environment.
\<close>

type_synonym zset = "(string \<times> int) list"

definition zremrangebyscore :: "int \<Rightarrow> int \<Rightarrow> zset \<Rightarrow> zset" where
  "zremrangebyscore lo hi z = filter (\<lambda>e. \<not> (lo \<le> snd e \<and> snd e \<le> hi)) z"

definition zcard :: "zset \<Rightarrow> int" where
  "zcard z = int (length z)"

definition zadd :: "int \<Rightarrow> string \<Rightarrow> zset \<Rightarrow> zset" where
  "zadd score member z = filter (\<lambda>e. fst e \<noteq> member) z @ [(member, score)]"

text \<open>
  \<open>zrange key 0 0 WITHSCORES\<close>: the element of lowest score; only its score is read.
\<close>

definition oldest_score :: "zset \<Rightarrow> int option" where
  "oldest_score z = (case z of [] \<Rightarrow> None | e # es \<Rightarrow> Some (fold min (map snd es) (snd e)))"

text \<open>\<open>Math.ceil(x / 1000)\<close> on integers.\<close>

definition ceil_div_1000 :: "int \<Rightarrow> int" where
  "ceil_div_1000 x = - ((- x) div 1000)"

record rate_result =
  allowed :: bool
  remaining :: int
  retryAfter :: int
  rl_limit :: int

definition rate_key :: "string \<Rightarrow> string \<Rightarrow> string" where
  "rate_key type identifier = ''ratelimit:'' @ type @ '':'' @ identifier"

definition rate_member :: "int \<Rightarrow> string \<Rightarrow> string" where
  "rate_member now rnd = show_int now @ '':'' @ rnd"

text \<open>
  \<open>checkRateLimit\<close>. \<open>reachable\<close> says whether the Redis commands succeed (otherwise
  the \<open>catch\<close> branch answers: fail open); \<open>rnd\<close> is the text of \<open>Math.random()\<close>. The
  pipeline issues \<open>zremrangebyscore\<close>, \<open>zcard\<close>, \<open>zadd\<close> and \<open>expire\<close> together,
  before the count is compared with the limit.
\<close>

definition checkRateLimit ::
  "bool \<Rightarrow> string \<Rightarrow> string \<Rightarrow> int \<Rightarrow> int \<Rightarrow> int \<Rightarrow> string \<Rightarrow> (string \<Rightarrow> zset)
     \<Rightarrow> rate_result \<times> (string \<Rightarrow> zset)" where
  "checkRateLimit reachable identifier type limit windowSeconds now rnd store =
     (if reachable then
        (let key = rate_key type identifier;
             windowStart = now - windowSeconds * 1000;
             z1 = zremrangebyscore 0 windowStart (store key);
             count = zcard z1;
             z2 = zadd now (rate_member now rnd) z1;
             store2 = store(key := z2)
         in if count \<ge> limit then
              (let retry = (case oldest_score z2 of
                              Some sc \<Rightarrow> ceil_div_1000 (sc + windowSeconds * 1000 - now)
                            | None \<Rightarrow> windowSeconds)
               in (\<lparr>allowed = False, remaining = 0, retryAfter = max 1 retry,
                    rl_limit = limit\<rparr>, store2))
            else (\<lparr>allowed = True, remaining = limit - count - 1, retryAfter = 0,
                   rl_limit = limit\<rparr>, store2))
      else (\<lparr>allowed = True, remaining = limit, retryAfter = 0, rl_limit = limit\<rparr>, store))"

definition busy_window :: "string \<Rightarrow> zset" where
  "busy_window = (\<lambda>_. [])(''ratelimit:download:ip:10.0.0.1'' := [(''59000:0.25'', 59000)])"

section \<open>Folders (Folder model in unnamed/part_008, FolderService in providers/queue/index.js)\<close>

record Folder =
  fo_id :: string
  fo_userId :: string
  fo_name :: string
  fo_parentId :: "string option"
  fo_path :: string
  fo_depth :: int

definition findFolder :: "string \<Rightarrow> Folder list \<Rightarrow> Folder option" where
  "findFolder folderId folders = find (\<lambda>d. fo_id d = folderId) folders"

text \<open>
  \<open>folderSchema.pre('save')\<close>; \<open>modified\<close> is
  \<open>this.isModified('name') || this.isModified('parentId')\<close>. A folder without parent
  gets depth 0 (``0 = root level'' in the schema), a child its parent's depth plus one.
\<close>

definition pre_save :: "bool \<Rightarrow> Folder list \<Rightarrow> Folder \<Rightarrow> Folder" where
  "pre_save modified folders doc =
     (if modified then
        (case fo_parentId doc of
           Some pid \<Rightarrow>
             (case findFolder pid folders of
                Some parent \<Rightarrow>
                  doc\<lparr>fo_path := fo_path parent @ ''/'' @ fo_name doc,
                      fo_depth := fo_depth parent + 1\<rparr>
              | None \<Rightarrow> doc)
         | None \<Rightarrow> doc\<lparr>fo_path := ''/'' @ fo_name doc, fo_depth := 0\<rparr>)
      else doc)"

text \<open>\<open>doc.save()\<close> of a stored document: the hook runs, then the document is written.\<close>

definition save_folder :: "bool \<Rightarrow> Folder \<Rightarrow> Folder list \<Rightarrow> Folder \<times> Folder list" where
  "save_folder modified doc folders =
     (let doc1 = pre_save modified folders doc
      in (doc1, map (\<lambda>d. if fo_id d = fo_id doc1 then doc1 else d) folders))"

text \<open>
  The query \<open>path: { $regex: `^${oldPath}/` }\<close>. The pattern is evaluated by the
  database's regular-expression engine, which is outside the repository. This is its
  meaning on the fragment the model covers, a \<open>^\<close> followed by characters that are not
  metacharacters: the subject starts with that text. On any other pattern the answer is
  \<open>None\<close> (not modelled).
\<close>

definition regex_meta :: string where
  "regex_meta = [CHR ''.'', CHR ''^'', CHR ''$'', CHR ''*'', CHR ''+'', CHR ''?'', CHR ''('',
                 CHR '')'', CHR ''['', CHR '']'', CHR ''{'', CHR ''}'', CHR ''|'', CHR 0x5C]"

definition regex_test :: "string \<Rightarrow> string \<Rightarrow> bool option" where
  "regex_test pattern subject =
     (case pattern of
        [] \<Rightarrow> None
      | c # lit \<Rightarrow>
          if c = CHR ''^'' \<and> list_all (\<lambda>x. x \<notin> set regex_meta) lit
          then Some (startsWith subject lit) else None)"

text \<open>
  \<open>folderSchema.methods.updateDescendantPaths\<close>. The new depth is
  \<open>desc.path.split('/').length - 1\<close>, the number of slashes in the path. The
  \<open>save()\<close> of a descendant changes neither \<open>name\<close> nor \<open>parentId\<close>, so its hook
  does nothing.
\<close>

definition updateDescendantPaths :: "Folder \<Rightarrow> string \<Rightarrow> Folder list \<Rightarrow> Folder list option" where
  "updateDescendantPaths this oldPath folders =
     (case regex_test (CHR ''^'' # oldPath @ ''/'') [] of
        None \<Rightarrow> None
      | Some _ \<Rightarrow>
          Some (map (\<lambda>d.
                  if fo_userId d = fo_userId this \<and>
                     regex_test (CHR ''^'' # oldPath @ ''/'') (fo_path d) = Some True
                  then (let path1 = js_replace (fo_path d) oldPath (fo_path this);
                            desc = d\<lparr>fo_path := path1,
                                     fo_depth := int (length (split_on CHR ''/'' path1)) - 1\<rparr>
                        in pre_save False folders desc)
                  else d) folders))"

text \<open>\<open>FolderService._sanitizeName\<close>; \<open>null\<close> (for a falsy name) is \<open>None\<close>.\<close>

definition folder_name_stripped :: "char \<Rightarrow> bool" where
  "folder_name_stripped c = (c \<in> set ''<>:\"/|?*'' \<or> c = CHR 0x5C \<or> (of_char c :: nat) \<le> 31)"

definition sanitizeName :: "string \<Rightarrow> string option" where
  "sanitizeName name =
     (if name = [] then None
      else Some (take 255 (trim (filter (\<lambda>c. \<not> folder_name_stripped c) name))))"

text \<open>
  \<open>FolderService.renameFolder\<close>. The duplicate query uses \<open>sanitizedName\<close> as it is;
  the assignment \<open>folder.name = sanitizedName\<close> goes through the schema's
  \<open>trim: true\<close>, so the document holds the trimmed text (they differ when the cut at
  255 characters leaves white space at the end). The outer \<open>None\<close> is the unmodelled
  regular expression of \<open>updateDescendantPaths\<close>.
\<close>

definition renameFolder ::
  "string \<Rightarrow> string \<Rightarrow> string \<Rightarrow> Folder list \<Rightarrow> ((app_error + Folder) \<times> Folder list) option" where
  "renameFolder userId folderId newName folders =
     (case find (\<lambda>d. fo_id d = folderId \<and> fo_userId d = userId) folders of
        None \<Rightarrow> Some (Inl (NotFoundError ''Folder''), folders)
      | Some folder \<Rightarrow>
          (case sanitizeName newName of
             None \<Rightarrow> Some (Inl (ValidationError ''Folder name is required''), folders)
           | Some sanitizedName \<Rightarrow>
               if sanitizedName = [] then
                 Some (Inl (ValidationError ''Folder name is required''), folders)
               else if find (\<lambda>d. fo_userId d = userId \<and> fo_parentId d = fo_parentId folder \<and>
                                  fo_name d = sanitizedName \<and> fo_id d \<noteq> folderId) folders
                       \<noteq> None then
                 Some (Inl (ValidationError ''Folder with this name already exists''), folders)
               else
                 (let oldPath = fo_path folder;
                      saved = save_folder (trim sanitizedName \<noteq> fo_name folder)
                                (folder\<lparr>fo_name := trim sanitizedName\<rparr>) folders
                  in case updateDescendantPaths (fst saved) oldPath (snd saved) of
                       None \<Rightarrow> None
                     | Some folders2 \<Rightarrow> Some (Inr (fst saved), folders2))))"

text \<open>The number of slashes of a path, and the invariant of the data model.\<close>

definition slashes :: "string \<Rightarrow> int" where
  "slashes path = int (length (filter (\<lambda>c. c = CHR ''/'') path))"

definition depth_ok :: "Folder \<Rightarrow> bool" where
  "depth_ok d = (fo_depth d = slashes (fo_path d) - 1)"

definition tree_a_b :: "Folder list" where
  "tree_a_b =
     [\<lparr>fo_id = ''A'', fo_userId = ''u1'', fo_name = ''a'', fo_parentId = None,
       fo_path = ''/a'', fo_depth = 0\<rparr>,
      \<lparr>fo_id = ''B'', fo_userId = ''u1'', fo_name = ''b'', fo_parentId = Some ''A'',
       fo_path = ''/a/b'', fo_depth = 1\<rparr>]"

section \<open>Filename sanitization (middleware/security.js)\<close>

text \<open>
  \<open>DANGEROUS_PATTERNS\<close>, each tested with \<open>pattern.test(filename)\<close>: \<open>..\<close>,
  \<open>%2e%2e\<close> and \<open>%252e%252e\<close> (case-insensitive), a backslash, \<open>%5c\<close> and \<open>%255c\<close>
  (case-insensitive), a NUL character, \<open>%00\<close>.
\<close>

definition dangerous :: "string \<Rightarrow> bool" where
  "dangerous filename =
     (contains ''..'' filename \<or>
      contains_ci ''%2e%2e'' filename \<or>
      contains_ci ''%252e%252e'' filename \<or>
      contains [CHR 0x5C] filename \<or>
      contains_ci ''%5c'' filename \<or>
      contains_ci ''%255c'' filename \<or>
      contains [CHR 0x00] filename \<or>
      contains ''%00'' filename)"

text \<open>
  \<open>path.basename\<close> on a POSIX host: trailing slashes are dropped, then the text after
  the last slash is taken; a path of slashes only gives the empty string.
\<close>

definition basename :: "string \<Rightarrow> string" where
  "basename path =
     rev (takeWhile (\<lambda>c. c \<noteq> CHR ''/'') (dropWhile (\<lambda>c. c = CHR ''/'') (rev path)))"

text \<open>The classes \<open>[\x00-\x1f\x7f]\<close> (removed) and \<open>[<>:"/\\|?*]\<close> (replaced by \<open>_\<close>).\<close>

definition is_control :: "char \<Rightarrow> bool" where
  "is_control c = ((of_char c :: nat) \<le> 31 \<or> (of_char c :: nat) = 127)"

definition is_reserved :: "char \<Rightarrow> bool" where
  "is_reserved c = (c \<in> set ''<>:\"/|?*'' \<or> c = CHR 0x5C)"

text \<open>
  \<open>sanitizeFilename\<close>; \<open>maxFilenameLength\<close> is \<open>config.security.maxFilenameLength\<close>
  (255 unless configured). The dangerous patterns are tested on the raw input, before
  the control characters are removed.
\<close>

definition sanitizeFilename :: "nat \<Rightarrow> string \<Rightarrow> app_error + string" where
  "sanitizeFilename maxFilenameLength filename =
     (if filename = [] then Inl (ValidationError ''Invalid filename'')
      else if length filename > maxFilenameLength then
        Inl (ValidationError (''Filename too long (max '' @ dec maxFilenameLength
                              @ '' characters)''))
      else if dangerous filename then
        Inl (ValidationError ''Invalid filename: contains dangerous characters'')
      else
        (let base = basename filename;
             sanitized = trim (map (\<lambda>c. if is_reserved c then CHR ''_'' else c)
                                 (filter (\<lambda>c. \<not> is_control c) base))
         in if sanitized = [] \<or> sanitized = ''.'' \<or> sanitized = ''..''
            then Inl (ValidationError ''Invalid filename'')
            else Inr sanitized))"

section \<open>Range headers (utils/stream.js)\<close>

text \<open>
  \<open>parseRange\<close>; \<open>null\<close> is \<open>None\<close>. \<open>parts[1]\<close> is read only when it exists and is
  not the empty string; a \<open>NaN\<close> start turns the request into a suffix range.
\<close>

definition parseRange :: "string \<Rightarrow> int \<Rightarrow> (int \<times> int) option" where
  "parseRange rangeHeader fileSize =
     (if rangeHeader = [] then None
      else if \<not> startsWith rangeHeader ''bytes='' then None
      else
        (let rangeText = js_replace rangeHeader ''bytes='' [];
             parts = split_on CHR ''-'' rangeText;
             start0 = (case parts of [] \<Rightarrow> None | p0 # _ \<Rightarrow> parseInt p0);
             end0 = (case parts of
                       _ # p1 # _ \<Rightarrow> if p1 \<noteq> [] then parseInt p1 else Some (fileSize - 1)
                     | _ \<Rightarrow> Some (fileSize - 1));
             start1 = (case start0 of
                         None \<Rightarrow> (case end0 of None \<Rightarrow> None | Some e \<Rightarrow> Some (fileSize - e))
                       | Some s \<Rightarrow> Some s);
             end1 = (case start0 of None \<Rightarrow> Some (fileSize - 1) | Some _ \<Rightarrow> end0)
         in case start1 of
              None \<Rightarrow> None
            | Some s \<Rightarrow>
                (case end1 of
                   None \<Rightarrow> None
                 | Some e \<Rightarrow> if s < 0 \<or> e \<ge> fileSize \<or> s > e then None else Some (s, e))))"

section \<open>Download service (services/DownloadService.js)\<close>

record metadata =
  md_id :: string
  md_storageKey :: string
  md_originalName :: string
  md_mimeType :: string
  md_size :: int
  md_storageTier :: StorageTier
  md_isPublic :: bool
  md_hasPassword :: bool
  md_userId :: string
  md_downloads :: int
  md_createdAt :: int
  md_expiresAt :: "int option"

text \<open>
  The metadata cache (keys \<open>file:<id>\<close>), the File collection and the users' roles. An
  entry leaves the cache when its 300 s time to live ends or when it is invalidated;
  both are steps of the environment.
\<close>

record download_state =
  ds_cache :: "string \<Rightarrow> metadata option"
  ds_files :: "File list"
  ds_users :: "string \<Rightarrow> UserRole option"

text \<open>Truthiness of an optional string: \<open>undefined\<close>, \<open>null\<close> and the empty string are falsy.\<close>

definition truthy :: "string option \<Rightarrow> bool" where
  "truthy v = (case v of None \<Rightarrow> False | Some s \<Rightarrow> s \<noteq> [])"

text \<open>
  The metadata object \<open>getFileMetadata\<close> builds from the document of
  \<open>File.findById(fileId)\<close>. The schema declares \<open>password\<close> with \<open>select: false\<close>
  and this query does not ask for it, so \<open>file.password\<close> is \<open>undefined\<close> in the loaded
  document and \<open>hasPassword: !!file.password\<close> is \<open>false\<close> whatever is stored.
\<close>

definition file_metadata :: "File \<Rightarrow> metadata" where
  "file_metadata file =
     \<lparr>md_id = f_id file, md_storageKey = f_storageKey file,
      md_originalName = f_originalName file, md_mimeType = f_mimeType file,
      md_size = f_size file, md_storageTier = f_storageTier file,
      md_isPublic = f_isPublic file, md_hasPassword = False,
      md_userId = f_userId file, md_downloads = f_downloads file,
      md_createdAt = f_createdAt file, md_expiresAt = f_expiresAt file\<rparr>"

text \<open>
  \<open>getFileMetadata\<close>: a cache hit is returned as it is; only the path through the
  database tests \<open>isDeleted\<close> and \<open>isExpired\<close>.
\<close>

definition getFileMetadata ::
  "int \<Rightarrow> string \<Rightarrow> download_state \<Rightarrow> (app_error + metadata) \<times> download_state" where
  "getFileMetadata now fileId st =
     (case ds_cache st fileId of
        Some cached \<Rightarrow> (Inr cached, st)
      | None \<Rightarrow>
          (case findById fileId (ds_files st) of
             None \<Rightarrow> (Inl (NotFoundError ''File''), st)
           | Some file \<Rightarrow>
               if f_isDeleted file then (Inl (NotFoundError ''File''), st)
               else if isExpired now file then (Inl (NotFoundError ''File has expired''), st)
               else (Inr (file_metadata file),
                     st\<lparr>ds_cache := (ds_cache st)(fileId \<mapsto> file_metadata file)\<rparr>)))"

text \<open>\<open>_checkAccess\<close>: \<open>None\<close> when it returns \<open>true\<close>, otherwise the error thrown.\<close>

definition checkPassword :: "metadata \<Rightarrow> string option \<Rightarrow> download_state \<Rightarrow> app_error option" where
  "checkPassword md password st =
     (if md_hasPassword md then
        (if \<not> truthy password then Some (AuthorizationError ''Password required'')
         else (case findById (md_id md) (ds_files st) of
                 None \<Rightarrow> Some (AuthorizationError ''Invalid password'')
               | Some file \<Rightarrow>
                   if f_password file \<noteq> password
                   then Some (AuthorizationError ''Invalid password'') else None))
      else None)"

definition checkOwner :: "metadata \<Rightarrow> string option \<Rightarrow> download_state \<Rightarrow> app_error option" where
  "checkOwner md userId st =
     (if \<not> md_isPublic md then
        (case userId of
           None \<Rightarrow> Some (AuthorizationError ''Authentication required'')
         | Some u \<Rightarrow>
             if u = [] then Some (AuthorizationError ''Authentication required'')
             else if md_userId md \<noteq> u then
               (case ds_users st u of
                  None \<Rightarrow> Some (AuthorizationError ''Access denied'')
                | Some role \<Rightarrow>
                    if \<not> isAdmin role then Some (AuthorizationError ''Access denied'')
                    else None)
             else None)
      else None)"

definition checkAccess ::
  "metadata \<Rightarrow> string option \<Rightarrow> string option \<Rightarrow> download_state \<Rightarrow> app_error option" where
  "checkAccess md userId password st =
     (if md_isPublic md \<and> \<not> md_hasPassword md then None
      else (case checkPassword md password st of
              Some e \<Rightarrow> Some e
            | None \<Rightarrow> checkOwner md userId st))"

text \<open>
  The call \<open>storageProvider.getStream(storageKey, tier, streamOptions)\<close>: with empty
  options the whole object is streamed, with \<open>{start, end}\<close> the bytes of that inclusive
  range.
\<close>

datatype stream_request =
    FullStream string StorageTier
  | RangeStream string StorageTier int int

text \<open>The fire-and-forget tasks \<open>_incrementDownload\<close> and \<open>_trackBandwidth\<close>.\<close>

datatype spawned = IncrementDownload string | TrackBandwidth string int

text \<open>
  \<open>_buildHeaders\<close>: the headers that depend on the request. The constant ones
  (\<open>Accept-Ranges\<close>, \<open>Cache-Control\<close>) and those copied from the metadata alone
  (\<open>Content-Disposition\<close>, \<open>ETag\<close>, \<open>X-File-Id\<close>) are left out.
\<close>

record headers =
  h_contentType :: string
  h_downloadCount :: int
  h_contentRange :: "(int \<times> int \<times> int) option"
  h_contentLength :: int

definition buildHeaders :: "metadata \<Rightarrow> (int \<times> int) option \<Rightarrow> headers" where
  "buildHeaders md rng =
     (case rng of
        Some (rstart, rend) \<Rightarrow>
          \<lparr>h_contentType = md_mimeType md, h_downloadCount = md_downloads md + 1,
           h_contentRange = Some (rstart, rend, md_size md),
           h_contentLength = rend - rstart + 1\<rparr>
      | None \<Rightarrow>
          \<lparr>h_contentType = md_mimeType md, h_downloadCount = md_downloads md + 1,
           h_contentRange = None, h_contentLength = md_size md\<rparr>)"

record download_response =
  r_stream :: stream_request
  r_headers :: headers
  r_statusCode :: nat
  r_metadata :: metadata
  r_spawned :: "spawned list"

text \<open>
  \<open>prepareDownload\<close>. A range header that \<open>parseRange\<close> rejects leaves \<open>range\<close> at
  \<open>null\<close>, and the request goes on as one without a range.
\<close>

definition prepareDownload ::
  "int \<Rightarrow> string \<Rightarrow> string option \<Rightarrow> string option \<Rightarrow> string option \<Rightarrow> download_state
     \<Rightarrow> (app_error + download_response) \<times> download_state" where
  "prepareDownload now fileId userId rangeHeader password st =
     (case getFileMetadata now fileId st of
        (Inl e, st1) \<Rightarrow> (Inl e, st1)
      | (Inr md, st1) \<Rightarrow>
          (case checkAccess md userId password st1 of
             Some e \<Rightarrow> (Inl e, st1)
           | None \<Rightarrow>
               (let rng = (case rangeHeader of
                               None \<Rightarrow> None
                             | Some h \<Rightarrow> if h = [] then None else parseRange h (md_size md));
                    stream = (case rng of
                                Some (rstart, rend) \<Rightarrow>
                                  RangeStream (md_storageKey md) (md_storageTier md) rstart rend
                              | None \<Rightarrow> FullStream (md_storageKey md) (md_storageTier md));
                    counter = (if truthy rangeHeader then [] else [IncrementDownload fileId]);
                    tracked = (case userId of
                                 None \<Rightarrow> []
                               | Some u \<Rightarrow>
                                   if u = [] then []
                                   else [TrackBandwidth u
                                           (case rng of
                                              Some (rstart, rend) \<Rightarrow> rend - rstart + 1
                                            | None \<Rightarrow> md_size md)])
                in (Inr \<lparr>r_stream = stream, r_headers = buildHeaders md rng,
                         r_statusCode = (case rng of Some _ \<Rightarrow> 206 | None \<Rightarrow> 200),
                         r_metadata = md, r_spawned = counter @ tracked\<rparr>, st1))))"

text \<open>
  The range headers of section 6 of the specification with numeric bounds:
  \<open>bytes=<a>-<b>\<close>, \<open>bytes=<a>-\<close> and \<open>bytes=-<n>\<close>; and when such a header cannot be
  satisfied by a file of \<open>fileSize\<close> bytes.
\<close>

datatype range_spec = Closed nat nat | OpenEnded nat | Suffix nat

fun range_header :: "range_spec \<Rightarrow> string" where
  "range_header (Closed a b) = ''bytes='' @ dec a @ ''-'' @ dec b"
| "range_header (OpenEnded a) = ''bytes='' @ dec a @ ''-''"
| "range_header (Suffix n) = ''bytes=-'' @ dec n"

fun unsatisfiable :: "range_spec \<Rightarrow> int \<Rightarrow> bool" where
  "unsatisfiable (Closed a b) fileSize = (int a > int b \<or> int b \<ge> fileSize)"
| "unsatisfiable (OpenEnded a) fileSize = (int a \<ge> fileSize)"
| "unsatisfiable (Suffix n) fileSize = (int n > fileSize \<or> n = 0)"

text \<open>A public file of 10 bytes without password, expiring at instant 1000.\<close>

definition shared_file :: File where
  "shared_file =
     \<lparr>f_id = ''f1'', f_userId = ''u1'', f_folderId = None, f_storageKey = ''u1_1_abc.bin'',
      f_originalName = ''a.bin'', f_mimeType = ''application/octet-stream'', f_size = 10,
      f_hash = ''00'', f_storageTier = HOT, f_downloads = 0, f_lastDownloadAt = None,
      f_lastAccessAt = 0, f_expiresAt = Some 1000, f_isPublic = True, f_password = None,
      f_isDeleted = False, f_deletedAt = None, f_migrationStatus = MigNone,
      f_lastMigrationAt = None, f_createdAt = 0\<rparr>"

definition cold_cache :: download_state where
  "cold_cache = \<lparr>ds_cache = Map.empty, ds_files = [shared_file], ds_users = Map.empty\<rparr>"

definition warm_cache :: download_state where
  "warm_cache = cold_cache\<lparr>ds_cache := [''f1'' \<mapsto> file_metadata shared_file]\<rparr>"

section \<open>Hash comparison (utils/hash.js)\<close>

text \<open>
  \<open>Buffer.from(s, 'hex')\<close>: pairs of hexadecimal digits become bytes; decoding stops at
  the first pair that is not hexadecimal, and a trailing single digit is dropped.
\<close>

definition hex_val :: "char \<Rightarrow> nat option" where
  "hex_val c =
     (let n = (of_char c :: nat)
      in if 48 \<le> n \<and> n \<le> 57 then Some (n - 48)
         else if 97 \<le> n \<and> n \<le> 102 then Some (n - 87)
         else if 65 \<le> n \<and> n \<le> 70 then Some (n - 55)
         else None)"

fun hex_decode :: "string \<Rightarrow> nat list" where
  "hex_decode (a # b # r) =
     (case hex_val a of
        None \<Rightarrow> []
      | Some x \<Rightarrow> (case hex_val b of
                     None \<Rightarrow> []
                   | Some y \<Rightarrow> (16 * x + y) # hex_decode r))"
| "hex_decode [a] = []"
| "hex_decode [] = []"

text \<open>
  \<open>verifyHash\<close>: \<open>timingSafeEqual\<close> throws on buffers of different length, which the
  \<open>catch\<close> turns into \<open>false\<close>; so the answer is equality of the decoded bytes.
\<close>

definition verifyHash :: "string \<Rightarrow> string \<Rightarrow> bool" where
  "verifyHash actual expected =
     (if actual = [] then False
      else if expected = [] then False
      else hex_decode (map lower_ascii actual) = hex_decode (map lower_ascii expected))"

section \<open>Quota: storage accounting (models/Quota.js)\<close>

record Quota =
  q_maxStorage :: "int option"
  q_maxFileSize :: "int option"
  q_maxFiles :: "int option"
  q_storage :: int
  q_files :: int
  q_bandwidth :: bandwidth
  q_isOverQuota :: bool
  q_overQuotaSince :: "int option"

text \<open>\<open>DefaultQuotas[role].maxStorage\<close>; \<open>-1\<close> is unlimited.\<close>

definition defaultMaxStorage :: "UserRole \<Rightarrow> int" where
  "defaultMaxStorage role = (case role of FREE \<Rightarrow> 50 * 1024 * 1024 * 1024 | PREMIUM \<Rightarrow> - 1 | ADMIN \<Rightarrow> - 1)"

text \<open>\<open>getEffectiveLimit('maxStorage')\<close>.\<close>

definition effectiveMaxStorage :: "(string \<Rightarrow> UserRole option) \<Rightarrow> string \<Rightarrow> Quota \<Rightarrow> int" where
  "effectiveMaxStorage users userId q =
     (case q_maxStorage q of
        Some customLimit \<Rightarrow> customLimit
      | None \<Rightarrow> (case users userId of
                   None \<Rightarrow> defaultMaxStorage FREE
                 | Some role \<Rightarrow> defaultMaxStorage role))"

text \<open>\<open>quotaSchema.methods.addFile\<close>.\<close>

definition addFile :: "int \<Rightarrow> (string \<Rightarrow> UserRole option) \<Rightarrow> string \<Rightarrow> int \<Rightarrow> Quota \<Rightarrow> Quota" where
  "addFile now users userId fileSize q =
     (let q1 = q\<lparr>q_storage := q_storage q + fileSize, q_files := q_files q + 1\<rparr>;
          maxStorage = effectiveMaxStorage users userId q1
      in if maxStorage \<noteq> - 1 \<and> q_storage q1 > maxStorage
         then q1\<lparr>q_isOverQuota := True,
                 q_overQuotaSince := (case q_overQuotaSince q1 of
                                        None \<Rightarrow> Some now
                                      | Some t \<Rightarrow> Some t)\<rparr>
         else q1)"

text \<open>The document \<open>Quota.create({ userId })\<close> makes from the schema defaults.\<close>

definition newQuota :: "jsdate \<Rightarrow> Quota" where
  "newQuota today =
     \<lparr>q_maxStorage = None, q_maxFileSize = None, q_maxFiles = None, q_storage = 0,
      q_files = 0, q_bandwidth = \<lparr>daily = 0, monthly = 0, lastReset = Some today\<rparr>,
      q_isOverQuota = False, q_overQuotaSince = None\<rparr>"

section \<open>Upload sessions (models/UploadSession.js)\<close>

datatype SessionStatus = Pending | Uploading | Assembling | Completed | Failed | Expired

record chunk_entry =
  ce_index :: int
  ce_size :: int
  ce_hash :: string
  ce_completedAt :: int

record session_error =
  se_message :: string
  se_code :: string
  se_chunkIndex :: "int option"

text \<open>
  A durable session document. The collection is a map from \<open>sessionId\<close> (its unique
  index) to the rest of the document.
\<close>

record UploadSession =
  us_userId :: string
  us_filename :: string
  us_mimeType :: string
  us_totalSize :: int
  us_expectedHash :: "string option"
  us_folderId :: "string option"
  us_chunkSize :: int
  us_totalChunks :: int
  us_completedChunks :: "chunk_entry list"
  us_status :: SessionStatus
  us_error :: "session_error option"
  us_fileId :: "string option"
  us_storageTier :: "StorageTier option"
  us_startedAt :: int
  us_lastActivityAt :: int
  us_completedAt :: "int option"
  us_expiresAt :: int

text \<open>
  \<open>uploadSessionSchema.methods.markChunkComplete\<close>: an index already in the list is not
  recorded again (the method returns \<open>false\<close> and does not save).
\<close>

definition markChunkComplete :: "int \<Rightarrow> int \<Rightarrow> int \<Rightarrow> string \<Rightarrow> UploadSession \<Rightarrow> bool \<times> UploadSession" where
  "markChunkComplete now index chunkLen hash doc =
     (if list_ex (\<lambda>c. ce_index c = index) (us_completedChunks doc) then (False, doc)
      else (True,
            doc\<lparr>us_completedChunks := us_completedChunks doc @
                    [\<lparr>ce_index = index, ce_size = chunkLen, ce_hash = hash,
                      ce_completedAt = now\<rparr>],
                us_lastActivityAt := now,
                us_status := Uploading\<rparr>))"

definition startAssembly :: "int \<Rightarrow> UploadSession \<Rightarrow> UploadSession" where
  "startAssembly now doc = doc\<lparr>us_status := Assembling, us_lastActivityAt := now\<rparr>"

definition markCompleted :: "int \<Rightarrow> string \<Rightarrow> StorageTier \<Rightarrow> UploadSession \<Rightarrow> UploadSession" where
  "markCompleted now fileId tier doc =
     doc\<lparr>us_status := Completed, us_fileId := Some fileId, us_storageTier := Some tier,
         us_completedAt := Some now\<rparr>"

text \<open>
  \<open>uploadSessionSchema.methods.markFailed(error, chunkIndex = null)\<close>, called with one
  argument: a thrown error, or the object \<open>{ message, code }\<close> that \<open>abortUpload\<close>
  passes. The parameters \<open>message\<close> and \<open>code\<close> are the properties of that argument.
  \<open>code: error.code || 'UNKNOWN'\<close> replaces an absent or empty code. In
  \<open>message: error.message || error\<close> the message of every error modelled here is not
  empty, so it is what is stored.
\<close>

definition markFailed :: "string \<Rightarrow> string option \<Rightarrow> UploadSession \<Rightarrow> UploadSession" where
  "markFailed message code doc =
     doc\<lparr>us_status := Failed,
         us_error := Some \<lparr>se_message = message,
                           se_code = (case code of
                                        None \<Rightarrow> ''UNKNOWN''
                                      | Some c \<Rightarrow> if c = [] then ''UNKNOWN'' else c),
                           se_chunkIndex = None\<rparr>\<rparr>"

text \<open>
  The object \<open>initializeUpload\<close> gives to \<open>UploadSession.create\<close> (without the
  \<open>sessionId\<close>, which is the key of the collection): \<open>filename\<close> is the sanitized
  name, \<open>mimeType\<close> the detected type, \<open>folderId\<close> is \<open>folderId || null\<close> and
  \<open>expiresAt\<close> is \<open>Date.now() + sessionTtl * 1000\<close>.
\<close>

record create_fields =
  cf_userId :: string
  cf_filename :: string
  cf_mimeType :: string
  cf_totalSize :: int
  cf_expectedHash :: "string option"
  cf_folderId :: "string option"
  cf_chunkSize :: int
  cf_totalChunks :: int
  cf_expiresAt :: int

text \<open>
  The document \<open>UploadSession.create\<close> stores for that object: the schema gives the
  other fields their defaults, an empty \<open>completedChunks\<close>, status \<open>pending\<close> and the
  time of creation.
\<close>

definition newUploadSession :: "int \<Rightarrow> create_fields \<Rightarrow> UploadSession" where
  "newUploadSession now obj =
     \<lparr>us_userId = cf_userId obj, us_filename = cf_filename obj,
      us_mimeType = cf_mimeType obj, us_totalSize = cf_totalSize obj,
      us_expectedHash = cf_expectedHash obj, us_folderId = cf_folderId obj,
      us_chunkSize = cf_chunkSize obj, us_totalChunks = cf_totalChunks obj,
      us_completedChunks = [], us_status = Pending, us_error = None, us_fileId = None,
      us_storageTier = None, us_startedAt = now, us_lastActivityAt = now,
      us_completedAt = None, us_expiresAt = cf_expiresAt obj\<rparr>"

section \<open>Upload service (services/UploadService.js)\<close>

text \<open>
  The object \<open>_getSession\<close> returns, which is also the JSON kept in the volatile store
  under \<open>upload_session:<sessionId>\<close>.
\<close>

record session_view =
  sv_sessionId :: string
  sv_userId :: string
  sv_filename :: string
  sv_mimeType :: string
  sv_totalSize :: int
  sv_expectedHash :: "string option"
  sv_folderId :: "string option"
  sv_chunkSize :: int
  sv_totalChunks :: int
  sv_status :: SessionStatus
  sv_expiresAt :: int

text \<open>
  The state the service works on: the session cache and the sets of completed chunk
  indices (volatile store; a set is kept as a list without duplicates), the durable
  sessions, the storage backend, the File collection, the quotas and the users' roles.
  Expiry of a volatile key and the TTL index of the durable sessions are steps of the
  environment.
\<close>

record upload_state =
  u_sessionCache :: "string \<Rightarrow> session_view option"
  u_chunkSets :: "string \<Rightarrow> int list"
  u_sessions :: "string \<Rightarrow> UploadSession option"
  u_storage :: storage
  u_files :: "File list"
  u_quotas :: "string \<Rightarrow> Quota option"
  u_users :: "string \<Rightarrow> UserRole option"

text \<open>
  What a call reads from outside the state: the clock (one reading per call), the
  random text of the storage key, the \<open>_id\<close> given to a created File, the configured
  \<open>expiry.daysFree\<close>, and the two digest functions of the \<open>crypto\<close> module.
\<close>

record upload_env =
  e_now :: int
  e_today :: jsdate
  e_random :: string
  e_newFileId :: string
  e_daysFree :: int
  e_md5 :: "bytes \<Rightarrow> string"
  e_sha256 :: "bytes \<Rightarrow> string"

definition cacheData :: "string \<Rightarrow> UploadSession \<Rightarrow> session_view" where
  "cacheData sessionId session =
     \<lparr>sv_sessionId = sessionId, sv_userId = us_userId session,
      sv_filename = us_filename session, sv_mimeType = us_mimeType session,
      sv_totalSize = us_totalSize session, sv_expectedHash = us_expectedHash session,
      sv_folderId = us_folderId session, sv_chunkSize = us_chunkSize session,
      sv_totalChunks = us_totalChunks session, sv_status = us_status session,
      sv_expiresAt = us_expiresAt session\<rparr>"

text \<open>\<open>_cacheSession\<close>.\<close>

definition cacheSession :: "string \<Rightarrow> UploadSession \<Rightarrow> upload_state \<Rightarrow> upload_state" where
  "cacheSession sessionId session st =
     st\<lparr>u_sessionCache := (u_sessionCache st)(sessionId \<mapsto> cacheData sessionId session)\<rparr>"

text \<open>
  \<open>_getSession\<close>: the cache first; the database only for a record with
  \<open>expiresAt > now\<close> and status \<open>pending\<close> or \<open>uploading\<close>, which is cached again. The
  object built from the database record has no \<open>folderId\<close>.
\<close>

definition getSession :: "int \<Rightarrow> string \<Rightarrow> upload_state \<Rightarrow> session_view option \<times> upload_state" where
  "getSession now sessionId st =
     (case u_sessionCache st sessionId of
        Some cached \<Rightarrow> (Some cached, st)
      | None \<Rightarrow>
          (case u_sessions st sessionId of
             None \<Rightarrow> (None, st)
           | Some dbSession \<Rightarrow>
               if us_expiresAt dbSession > now \<and>
                  (us_status dbSession = Pending \<or> us_status dbSession = Uploading)
               then (Some ((cacheData sessionId dbSession)\<lparr>sv_folderId := None\<rparr>),
                     cacheSession sessionId dbSession st)
               else (None, st)))"

text \<open>\<open>_deleteSessionCache\<close>: both keys are deleted.\<close>

definition deleteSessionCache :: "string \<Rightarrow> upload_state \<Rightarrow> upload_state" where
  "deleteSessionCache sessionId st =
     st\<lparr>u_sessionCache := (u_sessionCache st)(sessionId := None),
        u_chunkSets := (u_chunkSets st)(sessionId := [])\<rparr>"

text \<open>\<open>_isChunkUploaded\<close> (\<open>sismember\<close>).\<close>

definition isChunkUploaded :: "string \<Rightarrow> int \<Rightarrow> upload_state \<Rightarrow> bool" where
  "isChunkUploaded sessionId chunkIndex st = (chunkIndex \<in> set (u_chunkSets st sessionId))"

definition sadd :: "int \<Rightarrow> int list \<Rightarrow> int list" where
  "sadd x xs = (if x \<in> set xs then xs else xs @ [x])"

text \<open>The service's \<open>_markChunkComplete\<close> (\<open>sadd\<close> and \<open>expire\<close>).\<close>

definition service_markChunkComplete :: "string \<Rightarrow> int \<Rightarrow> upload_state \<Rightarrow> upload_state" where
  "service_markChunkComplete sessionId chunkIndex st =
     st\<lparr>u_chunkSets := (u_chunkSets st)(sessionId := sadd chunkIndex (u_chunkSets st sessionId))\<rparr>"

text \<open>\<open>_getCompletedChunks\<close> (\<open>smembers\<close>, sorted by number).\<close>

definition getCompletedChunks :: "string \<Rightarrow> upload_state \<Rightarrow> int list" where
  "getCompletedChunks sessionId st = sort (u_chunkSets st sessionId)"

text \<open>
  The remainder operator \<open>a % b\<close> on integers: \<open>NaN\<close> for \<open>b = 0\<close>, otherwise the sign
  of the dividend.
\<close>

definition js_mod :: "int \<Rightarrow> int \<Rightarrow> int option" where
  "js_mod a b = (if b = 0 then None else Some (sgn a * (\<bar>a\<bar> mod \<bar>b\<bar>)))"

text \<open>\<open>_getExpectedChunkSize\<close>.\<close>

definition getExpectedChunkSize :: "int \<Rightarrow> int \<Rightarrow> int \<Rightarrow> int \<Rightarrow> int option" where
  "getExpectedChunkSize chunkIndex totalChunks chunkSize totalSize =
     (if chunkIndex = totalChunks - 1 then
        (case js_mod totalSize chunkSize of
           None \<Rightarrow> None
         | Some remainder \<Rightarrow> if remainder = 0 then Some chunkSize else Some remainder)
      else Some chunkSize)"

text \<open>
  \<open>_getProgress\<close>. The field \<open>percentage\<close>, a floating-point number, is left out;
  \<open>uploadedBytes\<close> is \<open>NaN\<close> when one of the added sizes is.
\<close>

record progress =
  p_uploadedChunks :: int
  p_totalChunks :: int
  p_uploadedBytes :: "int option"
  p_totalBytes :: int

definition add_sizes :: "int option \<Rightarrow> int option \<Rightarrow> int option" where
  "add_sizes acc x =
     (case acc of None \<Rightarrow> None | Some a \<Rightarrow> (case x of None \<Rightarrow> None | Some b \<Rightarrow> Some (a + b)))"

definition getProgress :: "int \<Rightarrow> string \<Rightarrow> upload_state \<Rightarrow> progress option \<times> upload_state" where
  "getProgress now sessionId st =
     (case getSession now sessionId st of
        (None, st1) \<Rightarrow> (None, st1)
      | (Some session, st1) \<Rightarrow>
          (let completedChunks = getCompletedChunks sessionId st1
           in (Some \<lparr>p_uploadedChunks = int (length completedChunks),
                      p_totalChunks = sv_totalChunks session,
                      p_uploadedBytes =
                        foldl add_sizes (Some 0)
                          (map (\<lambda>chunkIndex.
                                  getExpectedChunkSize chunkIndex (sv_totalChunks session)
                                    (sv_chunkSize session) (sv_totalSize session))
                               completedChunks),
                      p_totalBytes = sv_totalSize session\<rparr>, st1)))"

section \<open>Upload service: chunk ingest\<close>

record chunk_result =
  cr_sessionId :: string
  cr_chunkIndex :: int
  cr_status :: string
  cr_progress :: "progress option"

definition show_size :: "int option \<Rightarrow> string" where
  "show_size v = (case v of None \<Rightarrow> ''NaN'' | Some n \<Rightarrow> show_int n)"

text \<open>
  \<open>uploadChunk\<close>. The chunk index is a number (the \<open>NaN\<close> that the controller's
  \<open>parseInt\<close> gives for a non-numeric route parameter is outside the model). Membership
  in the volatile set of completed indices is tested before anything is validated or
  written.
\<close>

definition uploadChunk ::
  "upload_env \<Rightarrow> string \<Rightarrow> int \<Rightarrow> bytes \<Rightarrow> string option \<Rightarrow> upload_state
     \<Rightarrow> (app_error + chunk_result) \<times> upload_state" where
  "uploadChunk env sessionId chunkIndex chunkData chunkHash st =
     (case getSession (e_now env) sessionId st of
        (None, st1) \<Rightarrow> (Inl (SessionExpiredError sessionId), st1)
      | (Some session, st1) \<Rightarrow>
          if chunkIndex < 0 \<or> chunkIndex \<ge> sv_totalChunks session then
            (Inl (ChunkValidationError chunkIndex ''Invalid chunk index''), st1)
          else if isChunkUploaded sessionId chunkIndex st1 then
            (case getProgress (e_now env) sessionId st1 of
               (prog, st2) \<Rightarrow>
                 (Inr \<lparr>cr_sessionId = sessionId, cr_chunkIndex = chunkIndex,
                       cr_status = ''already_uploaded'', cr_progress = prog\<rparr>, st2))
          else if chunkData = [] then
            (Inl (ChunkValidationError chunkIndex ''Empty chunk data''), st1)
          else if (case chunkHash of
                     None \<Rightarrow> False
                   | Some h \<Rightarrow> h \<noteq> [] \<and> \<not> verifyHash (e_md5 env chunkData) h) then
            (Inl (ChunkValidationError chunkIndex ''Chunk hash mismatch''), st1)
          else
            (let expectedSize = getExpectedChunkSize chunkIndex (sv_totalChunks session)
                                  (sv_chunkSize session) (sv_totalSize session)
             in if Some (int (length chunkData)) \<noteq> expectedSize then
                  (Inl (ChunkValidationError chunkIndex
                          (''Invalid chunk size. Expected: '' @ show_size expectedSize @
                           '', Got: '' @ show_int (int (length chunkData)))), st1)
                else
                  (let st2 = st1\<lparr>u_storage := writeChunk sessionId chunkIndex chunkData
                                                  (u_storage st1)\<rparr>;
                       computedHash = e_md5 env chunkData;
                       st3 = service_markChunkComplete sessionId chunkIndex st2;
                       st4 = (case u_sessions st3 sessionId of
                                None \<Rightarrow> st3
                              | Some dbSession \<Rightarrow>
                                  st3\<lparr>u_sessions := (u_sessions st3)(sessionId \<mapsto>
                                         snd (markChunkComplete (e_now env) chunkIndex
                                                (int (length chunkData)) computedHash
                                                dbSession))\<rparr>)
                   in case getProgress (e_now env) sessionId st4 of
                        (prog, st5) \<Rightarrow>
                          (Inr \<lparr>cr_sessionId = sessionId, cr_chunkIndex = chunkIndex,
                                cr_status = ''uploaded'', cr_progress = prog\<rparr>, st5))))"

section \<open>Upload service: status, completion and resume\<close>

record status_result =
  sr_sessionId :: string
  sr_filename :: string
  sr_totalSize :: int
  sr_totalChunks :: int
  sr_completedChunks :: int
  sr_remainingChunks :: "int list"
  sr_progress :: "progress option"
  sr_status :: SessionStatus
  sr_expiresAt :: int

text \<open>\<open>getUploadStatus\<close>.\<close>

definition getUploadStatus ::
  "upload_env \<Rightarrow> string \<Rightarrow> upload_state \<Rightarrow> (app_error + status_result) \<times> upload_state" where
  "getUploadStatus env sessionId st =
     (case getSession (e_now env) sessionId st of
        (None, st1) \<Rightarrow> (Inl (SessionExpiredError sessionId), st1)
      | (Some session, st1) \<Rightarrow>
          (case getProgress (e_now env) sessionId st1 of
             (prog, st2) \<Rightarrow>
               (let completedChunks = getCompletedChunks sessionId st2
                in (Inr \<lparr>sr_sessionId = sessionId, sr_filename = sv_filename session,
                         sr_totalSize = sv_totalSize session,
                         sr_totalChunks = sv_totalChunks session,
                         sr_completedChunks = int (length completedChunks),
                         sr_remainingChunks =
                           filter (\<lambda>i. i \<notin> set completedChunks)
                             [0..sv_totalChunks session - 1],
                         sr_progress = prog, sr_status = sv_status session,
                         sr_expiresAt = sv_expiresAt session\<rparr>, st2))))"

text \<open>\<open>_generateChunkUrls\<close>: the index and the URL of every chunk (the method is \<open>PUT\<close>).\<close>

definition generateChunkUrls :: "string \<Rightarrow> int \<Rightarrow> (int \<times> string) list" where
  "generateChunkUrls sessionId totalChunks =
     map (\<lambda>i. (i, ''/api/upload/chunk/'' @ sessionId @ ''/'' @ show_int i)) [0..totalChunks - 1]"

text \<open>\<open>resumeUpload\<close>.\<close>

definition resumeUpload ::
  "upload_env \<Rightarrow> string \<Rightarrow> string \<Rightarrow> upload_state
     \<Rightarrow> (app_error + status_result \<times> (int \<times> string) list) \<times> upload_state" where
  "resumeUpload env sessionId userId st =
     (case getSession (e_now env) sessionId st of
        (None, st1) \<Rightarrow> (Inl (SessionExpiredError sessionId), st1)
      | (Some session, st1) \<Rightarrow>
          if sv_userId session \<noteq> userId then
            (Inl (ValidationError ''Unauthorized access to upload session''), st1)
          else
            (case getUploadStatus env sessionId st1 of
               (Inl e, st2) \<Rightarrow> (Inl e, st2)
             | (Inr status, st2) \<Rightarrow>
                 (Inr (status, generateChunkUrls sessionId (sv_totalChunks session)), st2)))"

text \<open>\<open>_generateStorageKey\<close>: \<open><userId>_<now>_<random>.<text after the last dot>\<close>.\<close>

definition generateStorageKey :: "upload_env \<Rightarrow> string \<Rightarrow> string \<Rightarrow> string" where
  "generateStorageKey env userId filename =
     userId @ ''_'' @ show_int (e_now env) @ ''_'' @ e_random env @ ''.'' @
     last (split_on CHR ''.'' filename)"

text \<open>\<open>_getStorageTier\<close>: every branch answers \<open>hot\<close>.\<close>

definition getStorageTier :: "string \<Rightarrow> upload_state \<Rightarrow> StorageTier" where
  "getStorageTier userId st =
     (case u_users st userId of
        None \<Rightarrow> HOT
      | Some role \<Rightarrow> if isPremiumOrAdmin role then HOT else HOT)"

text \<open>\<open>_getExpiryDate\<close>.\<close>

definition getExpiryDate :: "upload_env \<Rightarrow> string \<Rightarrow> upload_state \<Rightarrow> int option" where
  "getExpiryDate env userId st =
     (case u_users st userId of
        None \<Rightarrow> Some (e_now env + e_daysFree env * day_ms)
      | Some role \<Rightarrow>
          if isPremiumOrAdmin role then None
          else Some (e_now env + e_daysFree env * day_ms))"

text \<open>The document \<open>File.create\<close> stores: the given fields and the schema defaults.\<close>

definition newFile ::
  "upload_env \<Rightarrow> string \<Rightarrow> string \<Rightarrow> session_view \<Rightarrow> assembled \<Rightarrow> StorageTier \<Rightarrow> int option \<Rightarrow> File" where
  "newFile env userId storageKey session result tier expiresAt =
     \<lparr>f_id = e_newFileId env, f_userId = userId, f_folderId = sv_folderId session,
      f_storageKey = storageKey, f_originalName = sv_filename session,
      f_mimeType = sv_mimeType session, f_size = a_size result, f_hash = a_hash result,
      f_storageTier = tier, f_downloads = 0, f_lastDownloadAt = None,
      f_lastAccessAt = e_now env, f_expiresAt = expiresAt, f_isPublic = True,
      f_password = None, f_isDeleted = False, f_deletedAt = None,
      f_migrationStatus = MigNone, f_lastMigrationAt = None, f_createdAt = e_now env\<rparr>"

record complete_result =
  co_fileId :: string
  co_filename :: string
  co_size :: int
  co_hash :: string
  co_mimeType :: string
  co_expiresAt :: "int option"

text \<open>
  The \<open>catch\<close> block of \<open>completeUpload\<close>: the document \<open>dbSession\<close> fetched before
  the \<open>try\<close>, if there was one, is marked failed and saved; the staged chunks are
  deleted; the error is thrown again. The session cache is not touched.
\<close>

definition completeFailed ::
  "app_error \<Rightarrow> string \<Rightarrow> UploadSession option \<Rightarrow> upload_state
     \<Rightarrow> (app_error + complete_result) \<times> upload_state" where
  "completeFailed err sessionId dbSession st =
     (let st1 = (case dbSession of
                   None \<Rightarrow> st
                 | Some doc \<Rightarrow>
                     st\<lparr>u_sessions := (u_sessions st)(sessionId \<mapsto>
                          markFailed (error_message err) (error_code err) doc)\<rparr>)
      in (Inl err, st1\<lparr>u_storage := deleteChunks sessionId (u_storage st1)\<rparr>))"

text \<open>
  \<open>completeUpload\<close>. A falsy \<open>expectedHash\<close> (absent or empty) skips the hash check.
  Failures of \<open>File.create\<close> and of the quota update are not modelled.
\<close>

definition completeUpload ::
  "upload_env \<Rightarrow> string \<Rightarrow> string \<Rightarrow> upload_state
     \<Rightarrow> (app_error + complete_result) \<times> upload_state" where
  "completeUpload env sessionId userId st =
     (case getSession (e_now env) sessionId st of
        (None, st1) \<Rightarrow> (Inl (SessionExpiredError sessionId), st1)
      | (Some session, st1) \<Rightarrow>
          if sv_userId session \<noteq> userId then
            (Inl (ValidationError ''Unauthorized access to upload session''), st1)
          else if int (length (getCompletedChunks sessionId st1)) \<noteq> sv_totalChunks session then
            (Inl (UploadError (''Upload incomplete. '' @
                     show_int (sv_totalChunks session
                               - int (length (getCompletedChunks sessionId st1))) @
                     '' chunks remaining'') None None), st1)
          else
            (let dbSession = map_option (startAssembly (e_now env)) (u_sessions st1 sessionId);
                 st2 = (case dbSession of
                          None \<Rightarrow> st1
                        | Some doc \<Rightarrow>
                            st1\<lparr>u_sessions := (u_sessions st1)(sessionId \<mapsto> doc)\<rparr>);
                 storageKey = generateStorageKey env userId (sv_filename session);
                 tier = getStorageTier userId st2
             in case assembleChunks (e_sha256 env) sessionId storageKey
                       (sv_totalChunks session) tier (u_storage st2) of
                  (Inl e, sto) \<Rightarrow>
                    completeFailed (StorageError e) sessionId dbSession
                      (st2\<lparr>u_storage := sto\<rparr>)
                | (Inr result, sto) \<Rightarrow>
                    if truthy (sv_expectedHash session) \<and>
                       \<not> verifyHash (a_hash result)
                           (case sv_expectedHash session of None \<Rightarrow> [] | Some h \<Rightarrow> h)
                    then
                      completeFailed
                        (UploadError ''File hash verification failed'' (Some 400)
                           (Some ''HASH_MISMATCH''))
                        sessionId dbSession
                        (st2\<lparr>u_storage := storage_delete storageKey tier sto\<rparr>)
                    else
                      (let file = newFile env userId storageKey session result tier
                                    (getExpiryDate env userId st2);
                           quota = (case u_quotas st2 userId of
                                      None \<Rightarrow> newQuota (e_today env)
                                    | Some q \<Rightarrow> q);
                           st3 = st2\<lparr>u_storage := sto,
                                     u_files := u_files st2 @ [file],
                                     u_quotas := (u_quotas st2)(userId \<mapsto>
                                        addFile (e_now env) (u_users st2) userId
                                          (a_size result) quota)\<rparr>;
                           st4 = (case dbSession of
                                    None \<Rightarrow> st3
                                  | Some doc \<Rightarrow>
                                      st3\<lparr>u_sessions := (u_sessions st3)(sessionId \<mapsto>
                                             markCompleted (e_now env) (f_id file) tier doc)\<rparr>)
                       in (Inr \<lparr>co_fileId = f_id file, co_filename = f_originalName file,
                                co_size = f_size file, co_hash = f_hash file,
                                co_mimeType = f_mimeType file,
                                co_expiresAt = f_expiresAt file\<rparr>,
                           deleteSessionCache sessionId st4))))"

section \<open>Upload service: session creation and abort\<close>

text \<open>
  What \<open>initializeUpload\<close> writes for a request that passes its checks on the file
  name, the file type and the quota (the checks themselves are not modelled):
  \<open>Quota.getOrCreate\<close> creates the quota document of a user who has none, then come
  \<open>UploadSession.create\<close> and \<open>_cacheSession\<close>. \<open>sessionId\<close> is the fresh UUID; the
  unique index of the collection refuses a second document with the same \<open>sessionId\<close>,
  in which case no session is written.
\<close>

definition createSession :: "upload_env \<Rightarrow> string \<Rightarrow> create_fields \<Rightarrow> upload_state \<Rightarrow> upload_state" where
  "createSession env sessionId obj st =
     (let st1 = (case u_quotas st (cf_userId obj) of
                   None \<Rightarrow> st\<lparr>u_quotas := (u_quotas st)(cf_userId obj \<mapsto> newQuota (e_today env))\<rparr>
                 | Some _ \<Rightarrow> st)
      in case u_sessions st1 sessionId of
           Some _ \<Rightarrow> st1
         | None \<Rightarrow>
             cacheSession sessionId (newUploadSession (e_now env) obj)
               (st1\<lparr>u_sessions := (u_sessions st1)(sessionId \<mapsto>
                       newUploadSession (e_now env) obj)\<rparr>))"

record abort_result =
  ab_success :: bool
  ab_message :: string

text \<open>\<open>abortUpload\<close>.\<close>

definition abortUpload ::
  "upload_env \<Rightarrow> string \<Rightarrow> string \<Rightarrow> upload_state \<Rightarrow> (app_error + abort_result) \<times> upload_state" where
  "abortUpload env sessionId userId st =
     (case getSession (e_now env) sessionId st of
        (None, st1) \<Rightarrow>
          (Inr \<lparr>ab_success = True, ab_message = ''Session not found or already expired''\<rparr>, st1)
      | (Some session, st1) \<Rightarrow>
          if sv_userId session \<noteq> userId then
            (Inl (ValidationError ''Unauthorized access to upload session''), st1)
          else
            (let st2 = st1\<lparr>u_storage := deleteChunks sessionId (u_storage st1)\<rparr>;
                 st3 = (case u_sessions st2 sessionId of
                          None \<Rightarrow> st2
                        | Some dbSession \<Rightarrow>
                            st2\<lparr>u_sessions := (u_sessions st2)(sessionId \<mapsto>
                                   markFailed ''Aborted by user'' (Some ''ABORTED'') dbSession)\<rparr>)
             in (Inr \<lparr>ab_success = True, ab_message = ''Upload aborted''\<rparr>,
                 deleteSessionCache sessionId st3)))"

section \<open>Cleanup of expired sessions (workers/cleanupWorker.js)\<close>

text \<open>
  The body of the loop of \<open>CleanupWorker.cleanExpiredSessions\<close> for one session, which
  \<open>UploadSession.findExpiredSessions\<close> selects when its status is \<open>pending\<close>,
  \<open>uploading\<close> or \<open>assembling\<close> and \<open>expiresAt \<le> now\<close>: the staged chunks are deleted
  and the status becomes \<open>expired\<close>. The batch limit of the query is left out.
\<close>

definition cleanExpiredSession :: "int \<Rightarrow> string \<Rightarrow> upload_state \<Rightarrow> upload_state" where
  "cleanExpiredSession now sessionId st =
     (case u_sessions st sessionId of
        None \<Rightarrow> st
      | Some session \<Rightarrow>
          if (us_status session = Pending \<or> us_status session = Uploading \<or>
              us_status session = Assembling) \<and> us_expiresAt session \<le> now
          then st\<lparr>u_storage := deleteChunks sessionId (u_storage st),
                  u_sessions := (u_sessions st)(sessionId \<mapsto> session\<lparr>us_status := Expired\<rparr>)\<rparr>
          else st)"

section \<open>A two-chunk upload\<close>

text \<open>
  Session \<open>s1\<close> of user \<open>u1\<close>: 5 bytes in chunks of 3, both chunks staged and recorded,
  cached and durable; \<open>expected\<close> is the hash announced at initialisation. The digest
  functions of the environment are constant.
\<close>

definition demo_env :: upload_env where
  "demo_env =
     \<lparr>e_now = 1000, e_today = \<lparr>getFullYear = 2024, getMonth = 0, getDate = 15\<rparr>,
      e_random = ''k3x9ab'', e_newFileId = ''f9'', e_daysFree = 5,
      e_md5 = (\<lambda>_. ''bb''), e_sha256 = (\<lambda>_. ''aa11'')\<rparr>"

definition demo_session :: "string option \<Rightarrow> UploadSession" where
  "demo_session expected =
     \<lparr>us_userId = ''u1'', us_filename = ''a.txt'', us_mimeType = ''text/plain'',
      us_totalSize = 5, us_expectedHash = expected, us_folderId = None, us_chunkSize = 3,
      us_totalChunks = 2,
      us_completedChunks =
        [\<lparr>ce_index = 0, ce_size = 3, ce_hash = ''bb'', ce_completedAt = 10\<rparr>,
         \<lparr>ce_index = 1, ce_size = 2, ce_hash = ''bb'', ce_completedAt = 20\<rparr>],
      us_status = Uploading, us_error = None, us_fileId = None, us_storageTier = None,
      us_startedAt = 0, us_lastActivityAt = 20, us_completedAt = None,
      us_expiresAt = 86400000\<rparr>"

definition demo_state :: "string option \<Rightarrow> upload_state" where
  "demo_state expected =
     \<lparr>u_sessionCache = [''s1'' \<mapsto> cacheData ''s1'' (demo_session expected)],
      u_chunkSets = (\<lambda>_. [])(''s1'' := [0, 1]),
      u_sessions = [''s1'' \<mapsto> demo_session expected],
      u_storage = \<lparr>blobs = Map.empty,
                    staged = (\<lambda>_. Map.empty)(''s1'' := [0 \<mapsto> [1, 2, 3], 1 \<mapsto> [4, 5]])\<rparr>,
      u_files = [], u_quotas = Map.empty, u_users = [''u1'' \<mapsto> FREE]\<rparr>"

section \<open>Notions used in the claim on chunk idempotence\<close>

text \<open>
  In every durable session, each index recorded in \<open>completedChunks\<close> has exactly one
  entry there.
\<close>

definition recorded_once :: "upload_state \<Rightarrow> bool" where
  "recorded_once st =
     (\<forall>sid doc. u_sessions st sid = Some doc \<longrightarrow>
        list_all (\<lambda>c. length (filter (\<lambda>d. ce_index d = ce_index c) (us_completedChunks doc)) = 1)
          (us_completedChunks doc))"

text \<open>
  A sequence of posts of one chunk index, each with its own environment, bytes and
  announced hash.
\<close>

fun repost ::
  "string \<Rightarrow> int \<Rightarrow> (upload_env \<times> bytes \<times> string option) list \<Rightarrow> upload_state
     \<Rightarrow> (app_error + chunk_result) list \<times> upload_state" where
  "repost sessionId chunkIndex [] st = ([], st)"
| "repost sessionId chunkIndex ((env, chunkData, chunkHash) # posts) st =
     (case uploadChunk env sessionId chunkIndex chunkData chunkHash st of
        (r, st1) \<Rightarrow> (case repost sessionId chunkIndex posts st1 of
                       (rs, st2) \<Rightarrow> (r # rs, st2)))"

text \<open>
  The number of entries that the durable \<open>completedChunks\<close> list of a session holds
  for a chunk index (0 when the session has no durable record).
\<close>

definition entries :: "string \<Rightarrow> int \<Rightarrow> upload_state \<Rightarrow> nat" where
  "entries sessionId chunkIndex st =
     (case u_sessions st sessionId of
        None \<Rightarrow> 0
      | Some doc \<Rightarrow> length (filter (\<lambda>c. ce_index c = chunkIndex) (us_completedChunks doc)))"

text \<open>
  Every index in the volatile set of completed indices of a session that has a durable
  record is recorded in the \<open>completedChunks\<close> list of that record.
\<close>

definition set_in_durable :: "upload_state \<Rightarrow> bool" where
  "set_in_durable st =
     (\<forall>sid doc i. u_sessions st sid = Some doc \<longrightarrow> i \<in> set (u_chunkSets st sid) \<longrightarrow>
        list_ex (\<lambda>c. ce_index c = i) (us_completedChunks doc))"

text \<open>
  What happens to the upload state: the calls of the upload service, the cleanup of an
  expired session, and four steps of the environment, which may happen at any time here
  (so that the runs below include those of the program). A session is initialized under
  a fresh UUID: one under which the volatile store holds no set of completed indices
  (for any other identifier the event does nothing). A durable session is deleted
  (the TTL index on \<open>expiresAt\<close>, \<open>cleanupOldSessions\<close>, \<open>UploadCleanupService.cleanup\<close>);
  the staging directory of a session is deleted (\<open>UploadCleanupService\<close>,
  \<open>cleanOrphanedTempDirs\<close>); the session key or the key of the set of completed indices
  leaves the volatile store (expiry, eviction, restart).
\<close>

datatype event =
    Initialized upload_env string create_fields
  | ChunkPosted upload_env string int bytes "string option"
  | StatusAsked upload_env string
  | ResumeAsked upload_env string string
  | CompleteAsked upload_env string string
  | AbortAsked upload_env string string
  | ExpiredCleaned int string
  | SessionDeleted string
  | StagingDeleted string
  | SessionKeyLost string
  | ChunkSetLost string

fun apply_event :: "event \<Rightarrow> upload_state \<Rightarrow> upload_state" where
  "apply_event (Initialized env sid obj) st =
     (if u_chunkSets st sid = [] then createSession env sid obj st else st)"
| "apply_event (ChunkPosted env sid i chunkData h) st = snd (uploadChunk env sid i chunkData h st)"
| "apply_event (StatusAsked env sid) st = snd (getUploadStatus env sid st)"
| "apply_event (ResumeAsked env sid uid) st = snd (resumeUpload env sid uid st)"
| "apply_event (CompleteAsked env sid uid) st = snd (completeUpload env sid uid st)"
| "apply_event (AbortAsked env sid uid) st = snd (abortUpload env sid uid st)"
| "apply_event (ExpiredCleaned now sid) st = cleanExpiredSession now sid st"
| "apply_event (SessionDeleted sid) st = st\<lparr>u_sessions := (u_sessions st)(sid := None)\<rparr>"
| "apply_event (StagingDeleted sid) st = st\<lparr>u_storage := deleteChunks sid (u_storage st)\<rparr>"
| "apply_event (SessionKeyLost sid) st = st\<lparr>u_sessionCache := (u_sessionCache st)(sid := None)\<rparr>"
| "apply_event (ChunkSetLost sid) st = st\<lparr>u_chunkSets := (u_chunkSets st)(sid := [])\<rparr>"

text \<open>The state after a sequence of events, the first of the list first.\<close>

fun run :: "event list \<Rightarrow> upload_state \<Rightarrow> upload_state" where
  "run [] st = st"
| "run (e # es) st = run es (apply_event e st)"

text \<open>
  A store without any session, and the start of the two-chunk upload in it: session
  \<open>s1\<close> is created and its chunk 0 is posted.
\<close>

definition demo_fields :: create_fields where
  "demo_fields =
     \<lparr>cf_userId = ''u1'', cf_filename = ''a.txt'', cf_mimeType = ''text/plain'',
      cf_totalSize = 5, cf_expectedHash = None, cf_folderId = None, cf_chunkSize = 3,
      cf_totalChunks = 2, cf_expiresAt = 86401000\<rparr>"

definition no_sessions :: upload_state where
  "no_sessions =
     \<lparr>u_sessionCache = Map.empty, u_chunkSets = (\<lambda>_. []), u_sessions = Map.empty,
      u_storage = \<lparr>blobs = Map.empty, staged = (\<lambda>_. Map.empty)\<rparr>,
      u_files = [], u_quotas = Map.empty, u_users = [''u1'' \<mapsto> FREE]\<rparr>"

definition chunk0_posted :: "event list" where
  "chunk0_posted =
     [Initialized demo_env ''s1'' demo_fields, ChunkPosted demo_env ''s1'' 0 [1, 2, 3] None]"

text \<open>
  The state after that and the loss of the set of completed indices of \<open>s1\<close>.
\<close>

definition set_lost :: upload_state where
  "set_lost = run (chunk0_posted @ [ChunkSetLost ''s1'']) no_sessions"

section \<open>Properties: tier migration and bandwidth accounting\<close>

text \<open>
  Claim C5 (every file the cold pass moves belongs to an owner who is neither premium nor
  admin). The worker takes its candidates from \<open>findColdMigrationCandidates\<close> and hands
  each to \<open>migrateFile\<close>; neither looks at the owner, and \<open>shouldMigrateToCold\<close>, which
  does, is never called. With \<open>hotToColdDays = 7\<close> and \<open>now\<close> ten days after the last
  access, the premium owner's file is moved to the cold tier, although
  \<open>shouldMigrateToCold\<close> answers \<open>false\<close> for it.
\<close>

theorem processColdMigrations_moves_premium_file:
  "premium_users (f_userId premium_file) = Some PREMIUM \<and>
   shouldMigrateToCold premium_users (10 * day_ms) 7 premium_file = False \<and>
   fst (processColdMigrations \<lparr>hotToColdDays = 7, batchSize = 100\<rparr> (10 * day_ms) premium_state)
     = (1, 0) \<and>
   map f_storageTier
     (ts_files (snd (processColdMigrations \<lparr>hotToColdDays = 7, batchSize = 100\<rparr>
        (10 * day_ms) premium_state))) = [COLD] \<and>
   blobs (ts_storage (snd (processColdMigrations \<lparr>hotToColdDays = 7, batchSize = 100\<rparr>
        (10 * day_ms) premium_state))) (COLD, ''u1_1_abc.txt'') = Some [1, 2, 3]"
  by (simp add: processColdMigrations_def findColdMigrationCandidates_def premium_state_def
      premium_file_def premium_users_def shouldMigrateToCold_def isPremiumOrAdmin_def
      day_ms_def migrateFile_def findById_def save_file_def migrate_def updateTier_def)

text \<open>
  Claim C8 (the daily counter restarts exactly when the day has changed, the monthly
  counter exactly when the month has changed). The code compares the day-of-month
  numbers only. From 15 January 2024 to 15 February 2024 both the day and the month have
  changed, yet \<open>addBandwidth\<close> clears neither counter and keeps the old \<open>lastReset\<close>:
  100 and 1000 bytes of January are carried into February.
\<close>

theorem addBandwidth_same_day_number_no_reset:
  "addBandwidth \<lparr>getFullYear = 2024, getMonth = 1, getDate = 15\<rparr> 1
     \<lparr>daily = 100, monthly = 1000,
      lastReset = Some \<lparr>getFullYear = 2024, getMonth = 0, getDate = 15\<rparr>\<rparr>
   = \<lparr>daily = 101, monthly = 1001,
      lastReset = Some \<lparr>getFullYear = 2024, getMonth = 0, getDate = 15\<rparr>\<rparr>"
  by (simp add: addBandwidth_def)

section \<open>Properties: rate limiter\<close>

text \<open>
  Claim C7 as stated (a denied request adds no entry to the window) fails: with limit 1
  and one entry 1 s old, the request at \<open>now = 60000\<close> is denied and its entry is in the
  sorted set afterwards.
\<close>

theorem checkRateLimit_denied_entry_added:
  "\<not> allowed (fst (checkRateLimit True ''ip:10.0.0.1'' ''download'' 1 60 60000 ''0.5''
       busy_window)) \<and>
   snd (checkRateLimit True ''ip:10.0.0.1'' ''download'' 1 60 60000 ''0.5'' busy_window)
       ''ratelimit:download:ip:10.0.0.1''
     = [(''59000:0.25'', 59000), (''60000:0.5'', 60000)]"
  by (simp add: checkRateLimit_def busy_window_def rate_key_def rate_member_def
      zremrangebyscore_def zcard_def zadd_def show_int_def dec.simps oldest_score_def
      ceil_div_1000_def)

text \<open>
  Claim C7 as amended: on every check that reaches the store, entries with a score in
  \<open>[0, now - window]\<close> are pruned, the cardinality is read, and the new entry is
  inserted whether or not the request is allowed; the request is allowed exactly when
  the cardinality read before the insertion is under the limit.
\<close>

theorem checkRateLimit_inserts_unconditionally:
  "snd (checkRateLimit True identifier type limit windowSeconds now rnd store)
       (rate_key type identifier)
     = zadd now (rate_member now rnd)
         (zremrangebyscore 0 (now - windowSeconds * 1000) (store (rate_key type identifier)))
   \<and> (rate_member now rnd, now)
       \<in> set (snd (checkRateLimit True identifier type limit windowSeconds now rnd store)
                (rate_key type identifier))
   \<and> allowed (fst (checkRateLimit True identifier type limit windowSeconds now rnd store))
       = (zcard (zremrangebyscore 0 (now - windowSeconds * 1000)
                   (store (rate_key type identifier))) < limit)"
  by (simp add: checkRateLimit_def Let_def zadd_def)

section \<open>Properties: folders and filenames\<close>

text \<open>
  Claim C4 (depth = number of slashes - 1, kept by every folder operation including the
  cascade). The hook gives a folder without parent depth 0 and a child the parent's
  depth plus one; the cascade sets depth to the number of slashes, one more. Folder
  \<open>/a\<close> (depth 0) holds \<open>/a/b\<close> (depth 1); both satisfy the invariant. After renaming
  \<open>a\<close> to \<open>c\<close> the child is \<open>/c/b\<close> with depth 2, below a parent of depth 0.
\<close>

theorem renameFolder_cascade_depth_off_by_one:
  "list_all depth_ok tree_a_b \<and>
   renameFolder ''u1'' ''A'' ''c'' tree_a_b =
     Some (Inr \<lparr>fo_id = ''A'', fo_userId = ''u1'', fo_name = ''c'', fo_parentId = None,
                fo_path = ''/c'', fo_depth = 0\<rparr>,
           [\<lparr>fo_id = ''A'', fo_userId = ''u1'', fo_name = ''c'', fo_parentId = None,
             fo_path = ''/c'', fo_depth = 0\<rparr>,
            \<lparr>fo_id = ''B'', fo_userId = ''u1'', fo_name = ''b'', fo_parentId = Some ''A'',
             fo_path = ''/c/b'', fo_depth = 2\<rparr>]) \<and>
   \<not> depth_ok \<lparr>fo_id = ''B'', fo_userId = ''u1'', fo_name = ''b'', fo_parentId = Some ''A'',
               fo_path = ''/c/b'', fo_depth = 2\<rparr>"
  by (simp add: tree_a_b_def depth_ok_def slashes_def renameFolder_def sanitizeName_def
      folder_name_stripped_def trim_def is_js_space_def save_folder_def pre_save_def
      updateDescendantPaths_def regex_test_def regex_meta_def startsWith_def
      js_replace_def Let_def)

text \<open>
  Claim C9 (\<open>sanitize(sanitize(x)) = sanitize(x)\<close> wherever \<open>sanitize(x)\<close> is defined).
  The name \<open>a.\<close>, U+0001, \<open>.b\<close> holds no dangerous pattern, so it is accepted; removing
  the control character yields \<open>a..b\<close>, which \<open>sanitizeFilename\<close> itself rejects as
  dangerous.
\<close>

theorem sanitizeFilename_output_rejected:
  "sanitizeFilename 255 [CHR ''a'', CHR ''.'', CHR 0x01, CHR ''.'', CHR ''b''] = Inr ''a..b'' \<and>
   sanitizeFilename 255 ''a..b''
     = Inl (ValidationError ''Invalid filename: contains dangerous characters'')"
  by (simp add: sanitizeFilename_def dangerous_def contains_def contains_ci_def
      lower_ascii_def startsWith_def basename_def is_control_def is_reserved_def trim_def
      is_js_space_def)

section \<open>Properties: range headers and downloads\<close>

subsection \<open>Decimal numerals and \<open>parseInt\<close>\<close>

lemma digit_char_props:
  "d < 10 \<Longrightarrow> is_digit (''0123456789'' ! d) \<and> digit_val (''0123456789'' ! d) = int d
     \<and> \<not> is_js_space (''0123456789'' ! d) \<and> ''0123456789'' ! d \<noteq> CHR ''-''
     \<and> ''0123456789'' ! d \<noteq> CHR ''+''"
proof -
  assume "d < 10"
  then have "d \<in> {0, 1, 2, 3, 4, 5, 6, 7, 8, 9}"
    by auto
  then show ?thesis
    by (elim insertE emptyE) (simp_all add: is_digit_def digit_val_def is_js_space_def)
qed

lemma dec_digits: "list_all is_digit (dec n)"
proof (induction n rule: dec.induct)
  case (1 n)
  show ?case
  proof (cases "n < 10")
    case True
    then show ?thesis using digit_char_props [of n] by (simp add: dec.simps [of n])
  next
    case False
    then show ?thesis
      using "1" digit_char_props [of "n mod 10"] by (simp add: dec.simps [of n])
  qed
qed

lemma dec_nonempty: "dec n \<noteq> []"
  by (simp add: dec.simps [of n])

lemma dec_value: "foldl (\<lambda>a c. 10 * a + digit_val c) 0 (dec n) = int n"
proof (induction n rule: dec.induct)
  case (1 n)
  show ?case
  proof (cases "n < 10")
    case True
    then show ?thesis using digit_char_props [of n] by (simp add: dec.simps [of n])
  next
    case False
    then have "foldl (\<lambda>a c. 10 * a + digit_val c) 0 (dec n)
        = 10 * int (n div 10) + int (n mod 10)"
      using "1" digit_char_props [of "n mod 10"] by (simp add: dec.simps [of n])
    then show ?thesis by (simp add: zmod_int zdiv_int)
  qed
qed

lemma dec_no_dash: "CHR ''-'' \<notin> set (dec n)"
proof
  assume "CHR ''-'' \<in> set (dec n)"
  then have "is_digit CHR ''-''" using dec_digits [of n] by (simp add: list_all_iff)
  then show False by (simp add: is_digit_def)
qed

lemma dec_head:
  "\<exists>c cs. dec n = c # cs \<and> is_digit c \<and> \<not> is_js_space c \<and> c \<noteq> CHR ''-'' \<and> c \<noteq> CHR ''+''"
proof (induction n rule: dec.induct)
  case (1 n)
  show ?case
  proof (cases "n < 10")
    case True
    then show ?thesis using digit_char_props [of n] by (simp add: dec.simps [of n])
  next
    case False
    then obtain c cs where "dec (n div 10) = c # cs" "is_digit c" "\<not> is_js_space c"
      "c \<noteq> CHR ''-''" "c \<noteq> CHR ''+''"
      using "1" by blast
    then show ?thesis using False by (simp add: dec.simps [of n])
  qed
qed

lemma parseInt_dec: "parseInt (dec n) = Some (int n)"
proof -
  obtain c cs where h: "dec n = c # cs" "is_digit c" "\<not> is_js_space c" "c \<noteq> CHR ''-''"
    "c \<noteq> CHR ''+''"
    using dec_head by blast
  have t: "takeWhile is_digit (dec n) = dec n"
    using dec_digits [of n] by (simp add: list_all_iff)
  have d: "dropWhile is_js_space (dec n) = dec n"
    using h by simp
  have s2: "(case dec n of [] \<Rightarrow> [] | c # r \<Rightarrow> if c = CHR ''-'' \<or> c = CHR ''+'' then r else dec n)
      = dec n"
    using h by simp
  have sg: "(case dec n of [] \<Rightarrow> 1 | c # _ \<Rightarrow> if c = CHR ''-'' then - 1 else (1::int)) = 1"
    using h by simp
  show ?thesis
    unfolding parseInt_def Let_def d s2 sg t
    using dec_nonempty [of n] dec_value [of n] by simp
qed

lemma parseInt_empty: "parseInt [] = None"
  by (simp add: parseInt_def)

lemma split_on_no_sep: "sep \<notin> set s \<Longrightarrow> split_on sep s = [s]"
  by (induction s) auto

lemma split_on_append: "sep \<notin> set a \<Longrightarrow> split_on sep (a @ sep # b) = a # split_on sep b"
  by (induction a) auto

lemma find_sub_prefix: "pat \<noteq> [] \<Longrightarrow> find_sub pat (pat @ rest) = Some ([], rest)"
  by (cases pat) (simp_all add: startsWith_def)

lemma js_replace_prefix: "pat \<noteq> [] \<Longrightarrow> js_replace (pat @ rest) pat [] = rest"
  by (simp add: js_replace_def find_sub_prefix)

subsection \<open>What \<open>parseRange\<close> rejects\<close>

lemma parseRange_bytes:
  "parseRange (''bytes='' @ rest) fileSize =
     (let parts = split_on CHR ''-'' rest;
          start0 = (case parts of [] \<Rightarrow> None | p0 # _ \<Rightarrow> parseInt p0);
          end0 = (case parts of
                    _ # p1 # _ \<Rightarrow> if p1 \<noteq> [] then parseInt p1 else Some (fileSize - 1)
                  | _ \<Rightarrow> Some (fileSize - 1));
          start1 = (case start0 of
                      None \<Rightarrow> (case end0 of None \<Rightarrow> None | Some e \<Rightarrow> Some (fileSize - e))
                    | Some s \<Rightarrow> Some s);
          end1 = (case start0 of None \<Rightarrow> Some (fileSize - 1) | Some _ \<Rightarrow> end0)
      in case start1 of
           None \<Rightarrow> None
         | Some s \<Rightarrow>
             (case end1 of
                None \<Rightarrow> None
              | Some e \<Rightarrow> if s < 0 \<or> e \<ge> fileSize \<or> s > e then None else Some (s, e)))"
proof -
  have "js_replace (''bytes='' @ rest) ''bytes='' [] = rest"
    by (rule js_replace_prefix) simp
  moreover have "startsWith (''bytes='' @ rest) ''bytes=''"
    by (simp add: startsWith_def)
  ultimately show ?thesis
    by (simp add: parseRange_def)
qed

lemma parseRange_closed:
  "parseRange (range_header (Closed a b)) fileSize =
     (if int b \<ge> fileSize \<or> int a > int b then None else Some (int a, int b))"
proof -
  have "split_on CHR ''-'' (dec a @ CHR ''-'' # dec b) = [dec a, dec b]"
    by (simp add: split_on_append split_on_no_sep dec_no_dash)
  then show ?thesis
    using parseRange_bytes [of "dec a @ ''-'' @ dec b" fileSize]
    by (simp add: parseInt_dec dec_nonempty)
qed

lemma parseRange_open:
  "parseRange (range_header (OpenEnded a)) fileSize =
     (if int a \<ge> fileSize then None else Some (int a, fileSize - 1))"
proof -
  have "split_on CHR ''-'' (dec a @ CHR ''-'' # []) = [dec a, []]"
    by (simp add: split_on_append dec_no_dash)
  then show ?thesis
    using parseRange_bytes [of "dec a @ ''-''" fileSize]
    by (auto simp add: parseInt_dec)
qed

lemma parseRange_suffix:
  "parseRange (range_header (Suffix n)) fileSize =
     (if int n > fileSize \<or> n = 0 then None else Some (fileSize - int n, fileSize - 1))"
proof -
  have "split_on CHR ''-'' (CHR ''-'' # dec n) = [[], dec n]"
    by (simp add: split_on_no_sep dec_no_dash)
  then show ?thesis
    using parseRange_bytes [of "CHR ''-'' # dec n" fileSize]
    by (auto simp add: parseInt_dec parseInt_empty dec_nonempty)
qed

lemma parseRange_unsatisfiable:
  "unsatisfiable spec fileSize \<Longrightarrow> parseRange (range_header spec) fileSize = None"
  by (cases spec) (auto simp: parseRange_closed parseRange_open parseRange_suffix simp del: range_header.simps)

lemma parseRange_not_bytes: "\<not> startsWith h ''bytes='' \<Longrightarrow> parseRange h fileSize = None"
  by (simp add: parseRange_def)

lemma parseRange_sound: "parseRange h fileSize = Some (s, e) \<Longrightarrow> 0 \<le> s \<and> s \<le> e \<and> e < fileSize"
  by (auto simp: parseRange_def Let_def split: if_splits option.splits)

subsection \<open>\<open>prepareDownload\<close> and \<open>getFileMetadata\<close>\<close>

lemma prepareDownload_no_range:
  assumes md: "getFileMetadata now fileId st = (Inr md, st1)"
    and acc: "checkAccess md userId password st1 = None"
    and rej: "parseRange h (md_size md) = None"
  shows "prepareDownload now fileId userId (Some h) password st =
           (Inr \<lparr>r_stream = FullStream (md_storageKey md) (md_storageTier md),
                 r_headers = buildHeaders md None, r_statusCode = 200, r_metadata = md,
                 r_spawned = (if h = [] then [IncrementDownload fileId] else []) @
                    (case userId of None \<Rightarrow> []
                     | Some u \<Rightarrow> if u = [] then [] else [TrackBandwidth u (md_size md)])\<rparr>,
            st1)"
  using md acc rej
  by (simp add: prepareDownload_def truthy_def split: option.splits)

lemma prepareDownload_partial_only_for_valid_range:
  assumes md: "getFileMetadata now fileId st = (Inr md, st1)"
    and acc: "checkAccess md userId password st1 = None"
    and resp: "fst (prepareDownload now fileId userId (Some h) password st) = Inr resp"
    and code: "r_statusCode resp = 206"
  shows "\<exists>s e. r_stream resp = RangeStream (md_storageKey md) (md_storageTier md) s e \<and>
           0 \<le> s \<and> s \<le> e \<and> e < md_size md"
proof (cases "h = []")
  case True
  then show ?thesis
    using md acc resp code by (auto simp: prepareDownload_def)
next
  case False
  show ?thesis
  proof (cases "parseRange h (md_size md)")
    case None
    then show ?thesis
      using md acc resp code False by (auto simp: prepareDownload_def)
  next
    case (Some r)
    obtain s e where r: "r = (s, e)" by (cases r)
    have "0 \<le> s \<and> s \<le> e \<and> e < md_size md"
      using Some r parseRange_sound by blast
    moreover have "r_stream resp = RangeStream (md_storageKey md) (md_storageTier md) s e"
      using md acc resp Some r False by (auto simp: prepareDownload_def Let_def)
    ultimately show ?thesis by blast
  qed
qed

text \<open>
  Claim C1 as stated (an unsatisfiable range makes \<open>prepareDownload\<close> fail with
  \<open>INVALID_RANGE\<close>; no content is streamed) fails: for a file of 10 bytes and
  \<open>Range: bytes=5-2\<close> the call returns a response with status 200 that streams the whole
  object.
\<close>

theorem prepareDownload_unsatisfiable_range_not_an_error:
  "fst (prepareDownload 0 ''f1'' None (Some ''bytes=5-2'') None cold_cache) =
     Inr \<lparr>r_stream = FullStream ''u1_1_abc.bin'' HOT,
          r_headers = \<lparr>h_contentType = ''application/octet-stream'', h_downloadCount = 1,
                       h_contentRange = None, h_contentLength = 10\<rparr>,
          r_statusCode = 200, r_metadata = file_metadata shared_file, r_spawned = []\<rparr>"
  by (simp add: prepareDownload_def getFileMetadata_def cold_cache_def findById_def
      shared_file_def isExpired_def checkAccess_def file_metadata_def truthy_def
      parseRange_def startsWith_def js_replace_def parseInt_def is_js_space_def
      is_digit_def digit_val_def buildHeaders_def Let_def)

text \<open>
  Claim C1 as amended: when the file resolves and access is granted, a range header
  that cannot be satisfied (\<open>bytes=a-b\<close> with \<open>a > b\<close> or \<open>b \<ge> size\<close>, \<open>bytes=a-\<close> with
  \<open>a \<ge> size\<close>, \<open>bytes=-n\<close> with \<open>n > size\<close> or \<open>n = 0\<close>) or that does not start with
  \<open>bytes=\<close> is ignored: \<open>prepareDownload\<close> does not fail, it answers 200 and streams the
  whole object, with no \<open>Content-Range\<close> and the file's size as \<open>Content-Length\<close>. A
  206 answer is given only for a range with \<open>0 \<le> start \<le> end < size\<close>.
\<close>

theorem prepareDownload_rejected_range_full_file:
  assumes md: "getFileMetadata now fileId st = (Inr md, st1)"
    and acc: "checkAccess md userId password st1 = None"
    and rej: "(\<exists>spec. h = range_header spec \<and> unsatisfiable spec (md_size md))
              \<or> \<not> startsWith h ''bytes=''"
  shows "(\<exists>resp. prepareDownload now fileId userId (Some h) password st = (Inr resp, st1) \<and>
            r_statusCode resp = 200 \<and>
            r_stream resp = FullStream (md_storageKey md) (md_storageTier md) \<and>
            h_contentRange (r_headers resp) = None \<and>
            h_contentLength (r_headers resp) = md_size md) \<and>
         (\<forall>h' resp'.
            fst (prepareDownload now fileId userId (Some h') password st) = Inr resp' \<and>
            r_statusCode resp' = 206 \<longrightarrow>
            (\<exists>s e. r_stream resp' = RangeStream (md_storageKey md) (md_storageTier md) s e \<and>
                   0 \<le> s \<and> s \<le> e \<and> e < md_size md))"
proof (intro conjI allI impI)
  have "parseRange h (md_size md) = None"
    using rej by (metis parseRange_unsatisfiable parseRange_not_bytes)
  from prepareDownload_no_range [OF md acc this]
  show "\<exists>resp. prepareDownload now fileId userId (Some h) password st = (Inr resp, st1) \<and>
            r_statusCode resp = 200 \<and>
            r_stream resp = FullStream (md_storageKey md) (md_storageTier md) \<and>
            h_contentRange (r_headers resp) = None \<and>
            h_contentLength (r_headers resp) = md_size md"
    by (simp add: buildHeaders_def)
next
  fix h' resp'
  assume "fst (prepareDownload now fileId userId (Some h') password st) = Inr resp' \<and>
          r_statusCode resp' = 206"
  then show "\<exists>s e. r_stream resp' = RangeStream (md_storageKey md) (md_storageTier md) s e \<and>
                   0 \<le> s \<and> s \<le> e \<and> e < md_size md"
    using prepareDownload_partial_only_for_valid_range [OF md acc] by blast
qed

text \<open>The amended claim at \<open>Range: bytes=5-2\<close> on the 10-byte file.\<close>

theorem prepareDownload_rejected_range_witness:
  "getFileMetadata 0 ''f1'' cold_cache = (Inr (file_metadata shared_file), warm_cache) \<and>
   checkAccess (file_metadata shared_file) None None warm_cache = None \<and>
   ''bytes=5-2'' = range_header (Closed 5 2) \<and>
   unsatisfiable (Closed 5 2) (md_size (file_metadata shared_file)) \<and>
   (\<exists>resp. prepareDownload 0 ''f1'' None (Some ''bytes=5-2'') None cold_cache
              = (Inr resp, warm_cache) \<and>
           r_statusCode resp = 200 \<and>
           r_stream resp = FullStream ''u1_1_abc.bin'' HOT \<and>
           h_contentRange (r_headers resp) = None \<and>
           h_contentLength (r_headers resp) = 10)"
proof -
  have md: "getFileMetadata 0 ''f1'' cold_cache = (Inr (file_metadata shared_file), warm_cache)"
    by (simp add: getFileMetadata_def cold_cache_def warm_cache_def findById_def
        shared_file_def isExpired_def)
  have acc: "checkAccess (file_metadata shared_file) None None warm_cache = None"
    by (simp add: checkAccess_def file_metadata_def shared_file_def truthy_def)
  have hdr: "''bytes=5-2'' = range_header (Closed 5 2)"
    by (simp add: dec.simps)
  have uns: "unsatisfiable (Closed 5 2) (md_size (file_metadata shared_file))"
    by simp
  have rej: "(\<exists>spec. ''bytes=5-2'' = range_header spec \<and>
                unsatisfiable spec (md_size (file_metadata shared_file)))
             \<or> \<not> startsWith ''bytes=5-2'' ''bytes=''"
    using hdr uns by blast
  from prepareDownload_rejected_range_full_file [OF md acc rej]
  have "\<exists>resp. prepareDownload 0 ''f1'' None (Some ''bytes=5-2'') None cold_cache
              = (Inr resp, warm_cache) \<and>
           r_statusCode resp = 200 \<and>
           r_stream resp = FullStream ''u1_1_abc.bin'' HOT \<and>
           h_contentRange (r_headers resp) = None \<and>
           h_contentLength (r_headers resp) = 10"
    by (simp add: file_metadata_def shared_file_def)
  with md acc hdr uns show ?thesis by blast
qed

text \<open>
  Claim C6 (a file whose \<open>expiresAt\<close> is in the past is \<open>NOT_FOUND\<close> in every state,
  also when its metadata is cached). The file expires at instant 1000. A download at
  instant 500 caches its metadata. At instant 2000 the file is expired: with an empty
  cache the call fails with \<open>NotFoundError('File has expired')\<close>, as the path through the
  database does; with the cached entry it answers 200 and streams the object.
\<close>

theorem getFileMetadata_serves_expired_from_cache:
  "isExpired 2000 shared_file \<and>
   snd (getFileMetadata 500 ''f1'' cold_cache) = warm_cache \<and>
   fst (prepareDownload 2000 ''f1'' None None None cold_cache)
     = Inl (NotFoundError ''File has expired'') \<and>
   fst (prepareDownload 2000 ''f1'' None None None warm_cache)
     = Inr \<lparr>r_stream = FullStream ''u1_1_abc.bin'' HOT,
            r_headers = \<lparr>h_contentType = ''application/octet-stream'', h_downloadCount = 1,
                         h_contentRange = None, h_contentLength = 10\<rparr>,
            r_statusCode = 200, r_metadata = file_metadata shared_file,
            r_spawned = [IncrementDownload ''f1'']\<rparr>"
  by (simp add: prepareDownload_def getFileMetadata_def cold_cache_def warm_cache_def
      findById_def shared_file_def isExpired_def checkAccess_def file_metadata_def
      truthy_def buildHeaders_def)

section \<open>Properties: upload service\<close>

subsection \<open>Session resolution\<close>

lemma getSession_frame:
  "getSession now sid st = (r, st1) \<Longrightarrow>
     u_sessions st1 = u_sessions st \<and> u_chunkSets st1 = u_chunkSets st \<and>
     u_storage st1 = u_storage st \<and> u_files st1 = u_files st \<and>
     u_quotas st1 = u_quotas st \<and> u_users st1 = u_users st"
  by (auto simp: getSession_def cacheSession_def split: option.splits if_splits)

lemma getSession_cached:
  "u_sessionCache st sid = Some v \<Longrightarrow> getSession now sid st = (Some v, st)"
  by (simp add: getSession_def)

lemma getSession_dead:
  "u_sessionCache st sid = None \<Longrightarrow> u_sessions st sid = Some db \<Longrightarrow>
   us_status db \<noteq> Pending \<Longrightarrow> us_status db \<noteq> Uploading \<Longrightarrow>
   getSession now sid st = (None, st)"
  by (simp add: getSession_def)

lemma getSession_absent:
  "u_sessionCache st sid = None \<Longrightarrow> u_sessions st sid = None \<Longrightarrow>
   getSession now sid st = (None, st)"
  by (simp add: getSession_def)

lemma getSession_miss_iff:
  "u_sessionCache st sid = None \<Longrightarrow>
   (fst (getSession now sid st) \<noteq> None) =
     (\<exists>db. u_sessions st sid = Some db \<and> (us_status db = Pending \<or> us_status db = Uploading)
           \<and> us_expiresAt db > now)"
  by (auto simp: getSession_def split: option.splits)

lemma completeUpload_success_state:
  assumes "completeUpload env sid uid st = (Inr r, st')"
  shows "u_sessionCache st' sid = None \<and>
         (u_sessions st' sid = None \<or> (\<exists>db. u_sessions st' sid = Some db \<and> us_status db = Completed))"
proof -
  obtain v st1 where g: "getSession (e_now env) sid st = (Some v, st1)"
    using assms by (cases "getSession (e_now env) sid st")
      (auto simp: completeUpload_def split: option.splits)
  have s: "u_sessions st1 = u_sessions st"
    using getSession_frame [OF g] by simp
  show ?thesis
    using assms g
    by (auto simp: completeUpload_def completeFailed_def Let_def deleteSessionCache_def
        markCompleted_def split: if_splits prod.splits sum.splits option.splits)
qed

subsection \<open>Chunk idempotence\<close>

lemma once_iff_distinct:
  "(\<forall>x \<in> set xs. length (filter (\<lambda>y. f y = f x) xs) = 1) = distinct (map f xs)"
proof (induction xs)
  case Nil
  then show ?case by simp
next
  case (Cons a xs)
  have none: "(length (filter (\<lambda>y. f y = f a) xs) = 0) = (f a \<notin> f ` set xs)"
    by (auto simp: filter_empty_conv) (metis imageI)
  show ?case
  proof (cases "f a \<in> f ` set xs")
    case True
    then obtain x where "x \<in> set xs" "f x = f a" by auto
    then have "filter (\<lambda>y. f y = f a) xs \<noteq> []"
      by (auto simp: filter_empty_conv)
    then have "length (filter (\<lambda>y. f y = f a) xs) \<noteq> 0" by simp
    then show ?thesis using True by auto
  next
    case False
    then have "\<And>x. x \<in> set xs \<Longrightarrow> f a \<noteq> f x" by auto
    then show ?thesis
      using False none Cons.IH by auto
  qed
qed

lemma recorded_once_distinct:
  "recorded_once st =
     (\<forall>sid doc. u_sessions st sid = Some doc \<longrightarrow> distinct (map ce_index (us_completedChunks doc)))"
  unfolding recorded_once_def list_all_iff once_iff_distinct by (rule refl)

lemma markChunkComplete_distinct:
  "distinct (map ce_index (us_completedChunks doc)) \<Longrightarrow>
   distinct (map ce_index (us_completedChunks (snd (markChunkComplete now i n h doc))))"
  by (auto simp: markChunkComplete_def list_ex_iff)

lemma getProgress_frame:
  "getProgress now sid st = (p, st1) \<Longrightarrow>
     u_sessions st1 = u_sessions st \<and> u_chunkSets st1 = u_chunkSets st \<and>
     u_storage st1 = u_storage st \<and> u_files st1 = u_files st \<and>
     u_quotas st1 = u_quotas st \<and> u_users st1 = u_users st"
  using getSession_frame [of now sid st]
  by (cases "getSession now sid st") (auto simp: getProgress_def Let_def split: option.splits)

lemma recorded_once_cong:
  "u_sessions st1 = u_sessions st \<Longrightarrow> recorded_once st1 = recorded_once st"
  by (simp add: recorded_once_def)

lemma uploadChunk_recorded_once:
  assumes once: "recorded_once st"
  shows "recorded_once (snd (uploadChunk env sid i chunkData h st))"
proof -
  obtain v st1 where g: "getSession (e_now env) sid st = (v, st1)"
    by (cases "getSession (e_now env) sid st")
  have s1: "u_sessions st1 = u_sessions st"
    using getSession_frame [OF g] by simp
  have o1: "recorded_once st1"
    using once s1 by (simp add: recorded_once_def)
  show ?thesis
  proof (cases v)
    case None
    then show ?thesis using g o1 by (simp add: uploadChunk_def)
  next
    case (Some session)
    let ?st2 = "st1\<lparr>u_storage := writeChunk sid i chunkData (u_storage st1)\<rparr>"
    let ?st3 = "service_markChunkComplete sid i ?st2"
    let ?st4 = "(case u_sessions ?st3 sid of
                   None \<Rightarrow> ?st3
                 | Some dbSession \<Rightarrow>
                     ?st3\<lparr>u_sessions := (u_sessions ?st3)(sid \<mapsto>
                            snd (markChunkComplete (e_now env) i (int (length chunkData))
                                   (e_md5 env chunkData) dbSession))\<rparr>)"
    have o4: "recorded_once ?st4"
      using o1 markChunkComplete_distinct
      by (auto simp: recorded_once_distinct service_markChunkComplete_def split: option.splits)
    have p1: "\<And>p s. getProgress (e_now env) sid st1 = (p, s) \<Longrightarrow> recorded_once s"
      using getProgress_frame o1 recorded_once_cong by blast
    have p4: "\<And>p s. getProgress (e_now env) sid ?st4 = (p, s) \<Longrightarrow> recorded_once s"
      using getProgress_frame o4 recorded_once_cong by blast
    show ?thesis
      using g Some o1 p1 p4
      by (auto simp: uploadChunk_def Let_def split: prod.splits)
  qed
qed

lemma getSession_caches:
  assumes "getSession now sid st = (Some v, st1)"
  shows "\<exists>v'. u_sessionCache st1 sid = Some v' \<and> sv_totalChunks v' = sv_totalChunks v \<and>
           sv_chunkSize v' = sv_chunkSize v \<and> sv_totalSize v' = sv_totalSize v"
  using assms
  by (auto simp: getSession_def cacheSession_def cacheData_def split: option.splits if_splits)

lemma getSession_hit_same:
  "getSession now sid st = (r, st1) \<Longrightarrow> u_sessionCache st sid \<noteq> None \<Longrightarrow> st1 = st"
  by (auto simp: getSession_def)

lemma repost_fixed:
  assumes "\<And>env d h. uploadChunk env sid i d h st1 = (res, st1)"
  shows "repost sid i posts st1 = (replicate (length posts) res, st1)"
  using assms by (induction posts) auto

lemma recorded_once_kept:
  assumes "recorded_once st"
    and "\<And>sid doc'. u_sessions st' sid = Some doc' \<Longrightarrow>
           us_completedChunks doc' = [] \<or>
           (\<exists>doc. u_sessions st sid = Some doc \<and> us_completedChunks doc' = us_completedChunks doc)"
  shows "recorded_once st'"
  unfolding recorded_once_distinct
proof (intro allI impI)
  fix sid doc'
  assume a: "u_sessions st' sid = Some doc'"
  from assms(2) [OF a] show "distinct (map ce_index (us_completedChunks doc'))"
    using assms(1) by (auto simp: recorded_once_distinct)
qed

lemma getUploadStatus_frame:
  "getUploadStatus env sid st = (r, st') \<Longrightarrow> u_sessions st' = u_sessions st"
  by (auto simp: getUploadStatus_def Let_def split: prod.splits option.splits
      dest!: getSession_frame getProgress_frame)

lemma resumeUpload_frame:
  "resumeUpload env sid uid st = (r, st') \<Longrightarrow> u_sessions st' = u_sessions st"
  by (auto simp: resumeUpload_def split: prod.splits option.splits if_splits sum.splits
      dest!: getSession_frame getUploadStatus_frame)

lemma completeUpload_chunks:
  assumes c: "completeUpload env sid uid st = (r, st')"
    and d: "u_sessions st' s = Some doc'"
  shows "\<exists>doc. u_sessions st s = Some doc \<and> us_completedChunks doc' = us_completedChunks doc"
proof -
  obtain v st1 where g: "getSession (e_now env) sid st = (v, st1)"
    by (cases "getSession (e_now env) sid st")
  have s: "u_sessions st1 = u_sessions st"
    using getSession_frame [OF g] by simp
  show ?thesis
    using c d g s
    by (auto simp: completeUpload_def completeFailed_def Let_def deleteSessionCache_def
        markCompleted_def markFailed_def startAssembly_def
        split: if_splits prod.splits sum.splits option.splits)
qed

lemma abortUpload_chunks:
  assumes c: "abortUpload env sid uid st = (r, st')"
    and d: "u_sessions st' s = Some doc'"
  shows "\<exists>doc. u_sessions st s = Some doc \<and> us_completedChunks doc' = us_completedChunks doc"
proof -
  obtain v st1 where g: "getSession (e_now env) sid st = (v, st1)"
    by (cases "getSession (e_now env) sid st")
  have s: "u_sessions st1 = u_sessions st"
    using getSession_frame [OF g] by simp
  show ?thesis
    using c d g s
    by (auto simp: abortUpload_def Let_def deleteSessionCache_def markFailed_def
        split: if_splits prod.splits sum.splits option.splits)
qed

lemma apply_event_recorded_once:
  assumes "recorded_once st"
  shows "recorded_once (apply_event e st)"
proof (cases e)
  case (Initialized env sid obj)
  show ?thesis
    unfolding Initialized apply_event.simps
    by (rule recorded_once_kept [OF assms])
      (auto simp: createSession_def cacheSession_def newUploadSession_def Let_def
         split: option.splits if_splits)
next
  case (ChunkPosted env sid i chunkData h)
  then show ?thesis using uploadChunk_recorded_once [OF assms] by simp
next
  case (StatusAsked env sid)
  then show ?thesis
    using assms getUploadStatus_frame [of env sid st] recorded_once_cong
    by (metis apply_event.simps(3) prod.collapse)
next
  case (ResumeAsked env sid uid)
  then show ?thesis
    using assms resumeUpload_frame [of env sid uid st] recorded_once_cong
    by (metis apply_event.simps(4) prod.collapse)
next
  case (CompleteAsked env sid uid)
  show ?thesis
    unfolding CompleteAsked apply_event.simps
    by (rule recorded_once_kept [OF assms])
      (metis completeUpload_chunks prod.collapse)
next
  case (AbortAsked env sid uid)
  show ?thesis
    unfolding AbortAsked apply_event.simps
    by (rule recorded_once_kept [OF assms])
      (metis abortUpload_chunks prod.collapse)
next
  case (ExpiredCleaned now sid)
  show ?thesis
    unfolding ExpiredCleaned apply_event.simps
    by (rule recorded_once_kept [OF assms])
      (auto simp: cleanExpiredSession_def split: option.splits if_splits)
next
  case (SessionDeleted sid)
  show ?thesis
    unfolding SessionDeleted apply_event.simps
    by (rule recorded_once_kept [OF assms]) (auto split: if_splits)
next
  case (StagingDeleted sid)
  then show ?thesis using assms by (simp add: recorded_once_def)
next
  case (SessionKeyLost sid)
  then show ?thesis using assms by (simp add: recorded_once_def)
next
  case (ChunkSetLost sid)
  then show ?thesis using assms by (simp add: recorded_once_def)
qed

lemma run_recorded_once:
  "recorded_once st \<Longrightarrow> recorded_once (run events st)"
  by (induction events arbitrary: st) (auto intro: apply_event_recorded_once)

lemma no_sessions_recorded_once:
  "u_sessions st = Map.empty \<Longrightarrow> recorded_once st"
  by (simp add: recorded_once_def)

lemma once_entries:
  assumes "distinct (map f xs)" and "x \<in> set xs"
  shows "length (filter (\<lambda>y. f y = f x) xs) = 1"
  using assms once_iff_distinct [of xs f] by blast

lemma markChunkComplete_entries:
  assumes "distinct (map ce_index (us_completedChunks doc))"
  shows "length (filter (\<lambda>c. ce_index c = i)
           (us_completedChunks (snd (markChunkComplete now i n h doc)))) = 1"
proof (cases "list_ex (\<lambda>c. ce_index c = i) (us_completedChunks doc)")
  case True
  then obtain x where x: "x \<in> set (us_completedChunks doc)" "ce_index x = i"
    by (auto simp: list_ex_iff)
  have "length (filter (\<lambda>y. ce_index y = ce_index x) (us_completedChunks doc)) = 1"
    using once_entries [OF assms x(1)] .
  then show ?thesis using True x by (simp add: markChunkComplete_def)
next
  case False
  then have "filter (\<lambda>c. ce_index c = i) (us_completedChunks doc) = []"
    by (auto simp: list_ex_iff filter_empty_conv)
  then show ?thesis using False by (simp add: markChunkComplete_def)
qed

lemma uploadChunk_first:
  assumes up: "uploadChunk env sid j d h t = (Inr r, t2)"
    and notin: "j \<notin> set (u_chunkSets t sid)"
  shows "cr_status r = ''uploaded''"
    and "staged (u_storage t2) sid j = Some d"
    and "j \<in> set (u_chunkSets t2 sid)"
    and "\<And>env' d' h'. uploadChunk env' sid j d' h' t2
            = (Inr (r\<lparr>cr_status := ''already_uploaded''\<rparr>), t2)"
    and "\<And>doc. u_sessions t sid = Some doc \<Longrightarrow>
           u_sessions t2 sid =
             Some (snd (markChunkComplete (e_now env) j (int (length d)) (e_md5 env d) doc))"
proof -
  obtain v t1 where g: "getSession (e_now env) sid t = (v, t1)"
    by (cases "getSession (e_now env) sid t")
  obtain session where v: "v = Some session"
    using up g by (cases v) (auto simp: uploadChunk_def)
  have live: "getSession (e_now env) sid t = (Some session, t1)"
    using g v by simp
  have fr: "u_sessions t1 = u_sessions t" "u_chunkSets t1 = u_chunkSets t"
    using getSession_frame [OF live] by simp_all
  have nup: "\<not> isChunkUploaded sid j t1"
    using notin fr by (simp add: isChunkUploaded_def)
  obtain v' where c: "u_sessionCache t1 sid = Some v'"
    and same: "sv_totalChunks v' = sv_totalChunks session"
      "sv_chunkSize v' = sv_chunkSize session" "sv_totalSize v' = sv_totalSize session"
    using getSession_caches [OF live] by blast
  let ?t2 = "t1\<lparr>u_storage := writeChunk sid j d (u_storage t1)\<rparr>"
  let ?t3 = "service_markChunkComplete sid j ?t2"
  let ?t4 = "(case u_sessions ?t3 sid of
               None \<Rightarrow> ?t3
             | Some dbSession \<Rightarrow>
                 ?t3\<lparr>u_sessions := (u_sessions ?t3)(sid \<mapsto>
                        snd (markChunkComplete (e_now env) j (int (length d))
                               (e_md5 env d) dbSession))\<rparr>)"
  have c4: "u_sessionCache ?t4 sid = Some v'"
    using c by (simp add: service_markChunkComplete_def split: option.splits)
  have hit: "\<And>now. getSession now sid ?t4 = (Some v', ?t4)"
    using c4 by (rule getSession_cached)
  define prog where "prog =
    \<lparr>p_uploadedChunks = int (length (getCompletedChunks sid ?t4)),
     p_totalChunks = sv_totalChunks v',
     p_uploadedBytes =
       foldl add_sizes (Some 0)
         (map (\<lambda>chunkIndex. getExpectedChunkSize chunkIndex (sv_totalChunks v')
                 (sv_chunkSize v') (sv_totalSize v'))
              (getCompletedChunks sid ?t4)),
     p_totalBytes = sv_totalSize v'\<rparr>"
  have pr: "\<And>now. getProgress now sid ?t4 = (Some prog, ?t4)"
    unfolding getProgress_def hit prog_def Let_def by simp
  have range: "0 \<le> j" "j < sv_totalChunks session"
    using up live by (auto simp: uploadChunk_def split: if_splits)
  have res: "r = \<lparr>cr_sessionId = sid, cr_chunkIndex = j, cr_status = ''uploaded'',
                  cr_progress = Some prog\<rparr> \<and> t2 = ?t4"
    using up live nup range pr
    by (auto simp: uploadChunk_def Let_def split: if_splits)
  show "cr_status r = ''uploaded''" using res by simp
  show "staged (u_storage t2) sid j = Some d"
    using res by (simp add: service_markChunkComplete_def writeChunk_def split: option.splits)
  have in4: "j \<in> set (u_chunkSets ?t4 sid)"
    by (simp add: service_markChunkComplete_def sadd_def split: option.splits)
  show "j \<in> set (u_chunkSets t2 sid)" using res in4 by simp
  have up4: "isChunkUploaded sid j ?t4"
    using in4 by (simp add: isChunkUploaded_def)
  have again: "\<And>env' d' h'. uploadChunk env' sid j d' h' ?t4
       = (Inr \<lparr>cr_sessionId = sid, cr_chunkIndex = j, cr_status = ''already_uploaded'',
               cr_progress = Some prog\<rparr>, ?t4)"
    using hit range up4 pr same by (simp add: uploadChunk_def)
  show "\<And>env' d' h'. uploadChunk env' sid j d' h' t2
            = (Inr (r\<lparr>cr_status := ''already_uploaded''\<rparr>), t2)"
    using again res by simp
  show "\<And>doc. u_sessions t sid = Some doc \<Longrightarrow>
           u_sessions t2 sid =
             Some (snd (markChunkComplete (e_now env) j (int (length d)) (e_md5 env d) doc))"
    using res fr by (simp add: service_markChunkComplete_def)
qed

lemma uploadChunk_known:
  assumes live: "getSession (e_now env) sid s = (Some session, s1)"
    and lo: "0 \<le> i"
    and hi: "i < sv_totalChunks session"
    and recorded: "i \<in> set (u_chunkSets s sid)"
  shows "\<exists>prog.
           repost sid i ((env, chunkData, h) # posts) s =
             (replicate (Suc (length posts))
                (Inr \<lparr>cr_sessionId = sid, cr_chunkIndex = i,
                      cr_status = ''already_uploaded'', cr_progress = Some prog\<rparr>), s1)"
proof -
  have fr: "u_sessions s1 = u_sessions s" "u_chunkSets s1 = u_chunkSets s"
    "u_storage s1 = u_storage s"
    using getSession_frame [OF live] by simp_all
  obtain v' where c: "u_sessionCache s1 sid = Some v'"
    and same: "sv_totalChunks v' = sv_totalChunks session"
      "sv_chunkSize v' = sv_chunkSize session" "sv_totalSize v' = sv_totalSize session"
    using getSession_caches [OF live] by blast
  have hit: "\<And>t. getSession t sid s1 = (Some v', s1)"
    using c by (rule getSession_cached)
  define prog where "prog =
    \<lparr>p_uploadedChunks = int (length (getCompletedChunks sid s1)),
     p_totalChunks = sv_totalChunks v',
     p_uploadedBytes =
       foldl add_sizes (Some 0)
         (map (\<lambda>chunkIndex. getExpectedChunkSize chunkIndex (sv_totalChunks v')
                 (sv_chunkSize v') (sv_totalSize v'))
              (getCompletedChunks sid s1)),
     p_totalBytes = sv_totalSize v'\<rparr>"
  have pr: "\<And>t. getProgress t sid s1 = (Some prog, s1)"
    by (simp add: getProgress_def hit prog_def Let_def)
  let ?res = "Inr \<lparr>cr_sessionId = sid, cr_chunkIndex = i,
                   cr_status = ''already_uploaded'', cr_progress = Some prog\<rparr>"
  have up: "isChunkUploaded sid i s1"
    using recorded fr by (simp add: isChunkUploaded_def)
  have first: "uploadChunk env sid i chunkData h s = (?res, s1)"
    using live lo hi up pr by (simp add: uploadChunk_def)
  have again: "\<And>env' d' h'. uploadChunk env' sid i d' h' s1 = (?res, s1)"
    using hit lo hi up pr same by (simp add: uploadChunk_def)
  have "repost sid i ((env, chunkData, h) # posts) s
               = (replicate (Suc (length posts)) ?res, s1)"
    using first repost_fixed [of sid i s1 ?res posts, OF again] by simp
  then show ?thesis by blast
qed

lemma markChunkComplete_indices:
  "list_ex (\<lambda>c. ce_index c = i) (us_completedChunks (snd (markChunkComplete now j n h doc)))
     = (i = j \<or> list_ex (\<lambda>c. ce_index c = i) (us_completedChunks doc))"
  by (auto simp: markChunkComplete_def list_ex_iff)

lemma uploadChunk_effect:
  "(u_sessions (snd (uploadChunk env sid j d h st)) = u_sessions st \<and>
    u_chunkSets (snd (uploadChunk env sid j d h st)) = u_chunkSets st)
   \<or> (u_chunkSets (snd (uploadChunk env sid j d h st))
         = (u_chunkSets st)(sid := sadd j (u_chunkSets st sid)) \<and>
       u_sessions (snd (uploadChunk env sid j d h st))
         = (case u_sessions st sid of
              None \<Rightarrow> u_sessions st
            | Some doc \<Rightarrow>
                (u_sessions st)(sid \<mapsto>
                   snd (markChunkComplete (e_now env) j (int (length d)) (e_md5 env d) doc))))"
proof -
  obtain v st1 where g: "getSession (e_now env) sid st = (v, st1)"
    by (cases "getSession (e_now env) sid st")
  have s1: "u_sessions st1 = u_sessions st" "u_chunkSets st1 = u_chunkSets st"
    using getSession_frame [OF g] by simp_all
  show ?thesis
  proof (cases v)
    case None
    then show ?thesis using g s1 by (simp add: uploadChunk_def)
  next
    case (Some session)
    let ?st2 = "st1\<lparr>u_storage := writeChunk sid j d (u_storage st1)\<rparr>"
    let ?st3 = "service_markChunkComplete sid j ?st2"
    let ?st4 = "(case u_sessions ?st3 sid of
                   None \<Rightarrow> ?st3
                 | Some dbSession \<Rightarrow>
                     ?st3\<lparr>u_sessions := (u_sessions ?st3)(sid \<mapsto>
                            snd (markChunkComplete (e_now env) j (int (length d))
                                   (e_md5 env d) dbSession))\<rparr>)"
    have e4: "u_chunkSets ?st4 = (u_chunkSets st)(sid := sadd j (u_chunkSets st sid))"
      "u_sessions ?st4 = (case u_sessions st sid of
              None \<Rightarrow> u_sessions st
            | Some doc \<Rightarrow>
                (u_sessions st)(sid \<mapsto>
                   snd (markChunkComplete (e_now env) j (int (length d)) (e_md5 env d) doc)))"
      using s1 by (simp_all add: service_markChunkComplete_def split: option.splits)
    have p1: "\<And>p s. getProgress (e_now env) sid st1 = (p, s) \<Longrightarrow>
                u_sessions s = u_sessions st \<and> u_chunkSets s = u_chunkSets st"
      using getProgress_frame s1 by metis
    have p4: "\<And>p s. getProgress (e_now env) sid ?st4 = (p, s) \<Longrightarrow>
                u_sessions s = u_sessions ?st4 \<and> u_chunkSets s = u_chunkSets ?st4"
      using getProgress_frame by blast
    show ?thesis
    proof (cases "0 \<le> j \<and> j < sv_totalChunks session \<and> \<not> isChunkUploaded sid j st1 \<and>
                  d \<noteq> [] \<and>
                  \<not> (case h of None \<Rightarrow> False
                      | Some x \<Rightarrow> x \<noteq> [] \<and> \<not> verifyHash (e_md5 env d) x) \<and>
                  Some (int (length d)) = getExpectedChunkSize j (sv_totalChunks session)
                                  (sv_chunkSize session) (sv_totalSize session)")
      case True
      then have "snd (uploadChunk env sid j d h st) = snd (getProgress (e_now env) sid ?st4)"
        using g Some by (auto simp: uploadChunk_def Let_def split: prod.splits)
      then have "u_sessions (snd (uploadChunk env sid j d h st)) = u_sessions ?st4 \<and>
                 u_chunkSets (snd (uploadChunk env sid j d h st)) = u_chunkSets ?st4"
        using p4 by (metis prod.collapse)
      then show ?thesis unfolding e4 by simp
    next
      case False
      then have "snd (uploadChunk env sid j d h st) = st1 \<or>
                 snd (uploadChunk env sid j d h st) = snd (getProgress (e_now env) sid st1)"
        using g Some by (auto simp: uploadChunk_def Let_def split: prod.splits)
      then have "u_sessions (snd (uploadChunk env sid j d h st)) = u_sessions st \<and>
                 u_chunkSets (snd (uploadChunk env sid j d h st)) = u_chunkSets st"
        using p1 s1 by (metis prod.collapse)
      then show ?thesis by simp
    qed
  qed
qed

lemma uploadChunk_set_in_durable:
  assumes "set_in_durable st"
  shows "set_in_durable (snd (uploadChunk env sid j d h st))"
  using uploadChunk_effect [of env sid j d h st] assms
  unfolding set_in_durable_def
  by (elim disjE conjE)
    (auto simp: sadd_def markChunkComplete_indices split: option.splits if_splits)

lemma set_in_durable_kept:
  assumes "set_in_durable st"
    and "\<And>s doc'. u_sessions st' s = Some doc' \<Longrightarrow>
           set (u_chunkSets st' s) = {} \<or>
           (\<exists>doc. u_sessions st s = Some doc \<and> us_completedChunks doc' = us_completedChunks doc
                  \<and> set (u_chunkSets st' s) \<subseteq> set (u_chunkSets st s))"
  shows "set_in_durable st'"
  unfolding set_in_durable_def
proof (intro allI impI)
  fix s doc' i
  assume a: "u_sessions st' s = Some doc'" and b: "i \<in> set (u_chunkSets st' s)"
  from assms(2) [OF a] b
  obtain doc where "u_sessions st s = Some doc"
    "us_completedChunks doc' = us_completedChunks doc" "i \<in> set (u_chunkSets st s)"
    by auto
  then show "list_ex (\<lambda>c. ce_index c = i) (us_completedChunks doc')"
    using assms(1) by (simp add: set_in_durable_def)
qed

lemma set_in_durable_cong:
  "u_sessions st' = u_sessions st \<Longrightarrow> u_chunkSets st' = u_chunkSets st \<Longrightarrow>
   set_in_durable st' = set_in_durable st"
  by (simp add: set_in_durable_def)

lemma getUploadStatus_sets:
  "getUploadStatus env sid st = (r, st') \<Longrightarrow> u_chunkSets st' = u_chunkSets st"
  by (auto simp: getUploadStatus_def Let_def split: prod.splits option.splits
      dest!: getSession_frame getProgress_frame)

lemma resumeUpload_sets:
  "resumeUpload env sid uid st = (r, st') \<Longrightarrow> u_chunkSets st' = u_chunkSets st"
  by (auto simp: resumeUpload_def split: prod.splits option.splits if_splits sum.splits
      dest!: getSession_frame getUploadStatus_sets)

lemma completeUpload_sets:
  assumes c: "completeUpload env sid uid st = (r, st')"
  shows "set (u_chunkSets st' s) \<subseteq> set (u_chunkSets st s)"
proof -
  obtain v st1 where g: "getSession (e_now env) sid st = (v, st1)"
    by (cases "getSession (e_now env) sid st")
  have s: "u_chunkSets st1 = u_chunkSets st"
    using getSession_frame [OF g] by simp
  show ?thesis
    using c g s
    by (auto simp: completeUpload_def completeFailed_def Let_def deleteSessionCache_def
        split: if_splits prod.splits sum.splits option.splits)
qed

lemma abortUpload_sets:
  assumes c: "abortUpload env sid uid st = (r, st')"
  shows "set (u_chunkSets st' s) \<subseteq> set (u_chunkSets st s)"
proof -
  obtain v st1 where g: "getSession (e_now env) sid st = (v, st1)"
    by (cases "getSession (e_now env) sid st")
  have s: "u_chunkSets st1 = u_chunkSets st"
    using getSession_frame [OF g] by simp
  show ?thesis
    using c g s
    by (auto simp: abortUpload_def Let_def deleteSessionCache_def
        split: if_splits prod.splits sum.splits option.splits)
qed

lemma apply_event_set_in_durable:
  assumes "set_in_durable st"
  shows "set_in_durable (apply_event e st)"
proof (cases e)
  case (Initialized env sid obj)
  show ?thesis
    unfolding Initialized apply_event.simps
    by (rule set_in_durable_kept [OF assms])
      (auto simp: createSession_def cacheSession_def newUploadSession_def Let_def
         split: option.splits if_splits)
next
  case (ChunkPosted env sid i chunkData h)
  then show ?thesis using uploadChunk_set_in_durable [OF assms] by simp
next
  case (StatusAsked env sid)
  then show ?thesis
    using assms getUploadStatus_frame [of env sid st] getUploadStatus_sets [of env sid st]
      set_in_durable_cong
    by (metis apply_event.simps(3) prod.collapse)
next
  case (ResumeAsked env sid uid)
  then show ?thesis
    using assms resumeUpload_frame [of env sid uid st] resumeUpload_sets [of env sid uid st]
      set_in_durable_cong
    by (metis apply_event.simps(4) prod.collapse)
next
  case (CompleteAsked env sid uid)
  show ?thesis
    unfolding CompleteAsked apply_event.simps
    by (rule set_in_durable_kept [OF assms])
      (metis completeUpload_chunks completeUpload_sets prod.collapse)
next
  case (AbortAsked env sid uid)
  show ?thesis
    unfolding AbortAsked apply_event.simps
    by (rule set_in_durable_kept [OF assms])
      (metis abortUpload_chunks abortUpload_sets prod.collapse)
next
  case (ExpiredCleaned now sid)
  show ?thesis
    unfolding ExpiredCleaned apply_event.simps
    by (rule set_in_durable_kept [OF assms])
      (auto simp: cleanExpiredSession_def split: option.splits if_splits)
next
  case (SessionDeleted sid)
  show ?thesis
    unfolding SessionDeleted apply_event.simps
    by (rule set_in_durable_kept [OF assms]) (auto split: if_splits)
next
  case (StagingDeleted sid)
  then show ?thesis using assms by (simp add: set_in_durable_def)
next
  case (SessionKeyLost sid)
  then show ?thesis using assms by (simp add: set_in_durable_def)
next
  case (ChunkSetLost sid)
  then show ?thesis using assms by (simp add: set_in_durable_def)
qed

lemma run_set_in_durable:
  "set_in_durable st \<Longrightarrow> set_in_durable (run events st)"
  by (induction events arbitrary: st) (auto intro: apply_event_set_in_durable)

lemma no_sessions_set_in_durable:
  "u_sessions st = Map.empty \<Longrightarrow> set_in_durable st"
  by (simp add: set_in_durable_def)

lemma known_entries:
  assumes "recorded_once st" and "set_in_durable st"
    and "u_sessions st sid \<noteq> None" and "i \<in> set (u_chunkSets st sid)"
  shows "entries sid i st = 1"
proof -
  obtain doc where doc: "u_sessions st sid = Some doc" using assms(3) by auto
  have "list_ex (\<lambda>c. ce_index c = i) (us_completedChunks doc)"
    using assms(2,4) doc by (simp add: set_in_durable_def)
  then obtain x where x: "x \<in> set (us_completedChunks doc)" "ce_index x = i"
    by (auto simp: list_ex_iff)
  have "distinct (map ce_index (us_completedChunks doc))"
    using assms(1) doc by (auto simp: recorded_once_distinct)
  from once_entries [OF this x(1)] show ?thesis
    using doc x(2) by (simp add: entries_def)
qed

text \<open>
  Claim C2 as stated (an index recorded as complete is answered \<open>already_uploaded\<close>
  without writing the bytes again or changing the session) fails for an index that is
  recorded in the durable \<open>completedChunks\<close> list while the volatile set of completed
  indices is gone. In \<open>set_lost\<close> session \<open>s1\<close> resolves, its durable list holds one
  entry for index 0 and chunk 0 is staged, but the set is empty. The post of chunk 0 is
  answered \<open>uploaded\<close> and puts the index into the set; the durable list keeps its one
  entry; the staged chunk is written again (posted with other bytes of the same length,
  these replace the staged ones).
\<close>

theorem uploadChunk_set_lost_ingests_again:
  "entries ''s1'' 0 set_lost = 1
   \<and> staged (u_storage set_lost) ''s1'' 0 = Some [1, 2, 3]
   \<and> u_chunkSets set_lost ''s1'' = []
   \<and> map_option sv_totalChunks (fst (getSession (e_now demo_env) ''s1'' set_lost)) = Some 2
   \<and> fst (uploadChunk demo_env ''s1'' 0 [1, 2, 3] None set_lost) =
       Inr \<lparr>cr_sessionId = ''s1'', cr_chunkIndex = 0, cr_status = ''uploaded'',
            cr_progress = Some \<lparr>p_uploadedChunks = 1, p_totalChunks = 2,
                                 p_uploadedBytes = Some 3, p_totalBytes = 5\<rparr>\<rparr>
   \<and> u_chunkSets (snd (uploadChunk demo_env ''s1'' 0 [1, 2, 3] None set_lost)) ''s1'' = [0]
   \<and> entries ''s1'' 0 (snd (uploadChunk demo_env ''s1'' 0 [1, 2, 3] None set_lost)) = 1
   \<and> staged (u_storage (snd (uploadChunk demo_env ''s1'' 0 [7, 8, 9] None set_lost))) ''s1'' 0
       = Some [7, 8, 9]"
  by code_simp

text \<open>
  Claim C2 as amended. Membership in the volatile set of completed indices is the
  arbiter. For a session that resolves and an index of the session that is in that set,
  the post and every later post of that index, whatever bytes and hash they carry,
  answer \<open>already_uploaded\<close> with the same progress, and nothing is written: the state
  after the posts is the state after the first session resolution, which keeps the
  staged chunks, the durable sessions and the index sets, and is the state before the
  posts when the session was cached. A post of an index that is not in the set, if it
  succeeds, answers \<open>uploaded\<close>, stages the bytes and puts the index into the set, so
  every later post of that index answers \<open>already_uploaded\<close> with the same progress and
  leaves the state as it was after that first post. The durable list is tied to this in
  every state \<open>run events st0\<close> that the events of the upload service reach from a
  store \<open>st0\<close> without sessions: each index recorded in a \<open>completedChunks\<close> list
  has exactly one entry there; and in both cases above, when the session has a durable
  record, that record holds exactly one entry for the posted index after the post.
\<close>

theorem uploadChunk_idempotent:
  assumes init: "u_sessions st0 = Map.empty"
  shows "(getSession (e_now env) sid s = (Some session, s1) \<and> 0 \<le> i \<and>
          i < sv_totalChunks session \<and> i \<in> set (u_chunkSets s sid) \<longrightarrow>
            (\<exists>prog.
               repost sid i ((env, chunkData, h) # posts) s =
                 (replicate (Suc (length posts))
                    (Inr \<lparr>cr_sessionId = sid, cr_chunkIndex = i,
                          cr_status = ''already_uploaded'', cr_progress = Some prog\<rparr>), s1))
            \<and> u_storage s1 = u_storage s \<and> u_sessions s1 = u_sessions s
            \<and> u_chunkSets s1 = u_chunkSets s
            \<and> (u_sessionCache s sid \<noteq> None \<longrightarrow> s1 = s)
            \<and> (s = run events st0 \<and> u_sessions s sid \<noteq> None \<longrightarrow> entries sid i s1 = 1))
       \<and> (uploadChunk env sid j chunkData h t = (Inr r, t2) \<and>
          j \<notin> set (u_chunkSets t sid) \<longrightarrow>
            cr_status r = ''uploaded''
            \<and> staged (u_storage t2) sid j = Some chunkData
            \<and> j \<in> set (u_chunkSets t2 sid)
            \<and> repost sid j posts t2 =
                (replicate (length posts) (Inr (r\<lparr>cr_status := ''already_uploaded''\<rparr>)), t2)
            \<and> (t = run events st0 \<and> u_sessions t sid \<noteq> None \<longrightarrow> entries sid j t2 = 1))
       \<and> recorded_once (run events st0)"
proof (intro conjI impI)
  assume a: "getSession (e_now env) sid s = (Some session, s1) \<and> 0 \<le> i \<and>
          i < sv_totalChunks session \<and> i \<in> set (u_chunkSets s sid)"
  then have live: "getSession (e_now env) sid s = (Some session, s1)" by simp
  show "\<exists>prog.
               repost sid i ((env, chunkData, h) # posts) s =
                 (replicate (Suc (length posts))
                    (Inr \<lparr>cr_sessionId = sid, cr_chunkIndex = i,
                          cr_status = ''already_uploaded'', cr_progress = Some prog\<rparr>), s1)"
    using a uploadChunk_known [OF live, of i chunkData h posts] by blast
  show "u_storage s1 = u_storage s" "u_sessions s1 = u_sessions s"
    "u_chunkSets s1 = u_chunkSets s"
    using getSession_frame [OF live] by simp_all
  show "s1 = s" if "u_sessionCache s sid \<noteq> None"
    using getSession_hit_same [OF live that] .
  show "entries sid i s1 = 1" if c: "s = run events st0 \<and> u_sessions s sid \<noteq> None"
  proof -
    have "recorded_once s" "set_in_durable s"
      using c init
      by (simp_all add: run_recorded_once no_sessions_recorded_once
          run_set_in_durable no_sessions_set_in_durable)
    moreover have "u_sessions s sid \<noteq> None" "i \<in> set (u_chunkSets s sid)"
      using c a by blast+
    ultimately have "entries sid i s = 1"
      by (rule known_entries)
    then show ?thesis
      using getSession_frame [OF live] by (simp add: entries_def)
  qed
next
  assume b: "uploadChunk env sid j chunkData h t = (Inr r, t2) \<and>
          j \<notin> set (u_chunkSets t sid)"
  then have up: "uploadChunk env sid j chunkData h t = (Inr r, t2)"
    and notin: "j \<notin> set (u_chunkSets t sid)" by simp_all
  note f = uploadChunk_first [OF up notin]
  show "cr_status r = ''uploaded''" by (rule f(1))
  show "staged (u_storage t2) sid j = Some chunkData" by (rule f(2))
  show "j \<in> set (u_chunkSets t2 sid)" by (rule f(3))
  show "repost sid j posts t2 =
          (replicate (length posts) (Inr (r\<lparr>cr_status := ''already_uploaded''\<rparr>)), t2)"
    by (rule repost_fixed) (rule f(4))
  show "entries sid j t2 = 1" if c: "t = run events st0 \<and> u_sessions t sid \<noteq> None"
  proof -
    obtain doc where doc: "u_sessions t sid = Some doc" using c by auto
    have "recorded_once t"
      using c init by (simp add: run_recorded_once no_sessions_recorded_once)
    then have "distinct (map ce_index (us_completedChunks doc))"
      using doc by (auto simp: recorded_once_distinct)
    then show ?thesis
      using f(5) [OF doc] by (simp add: entries_def markChunkComplete_entries)
  qed
next
  show "recorded_once (run events st0)"
    using init by (simp add: run_recorded_once no_sessions_recorded_once)
qed

text \<open>
  The amended claim in the state where session \<open>s1\<close> has been created and its chunk 0
  posted: chunk 0 is posted twice more, then chunk 1 is posted for the first time and
  once more.
\<close>

theorem uploadChunk_idempotent_witness:
  "u_sessions no_sessions = Map.empty \<and>
   (let t = run chunk0_posted no_sessions;
        t2 = snd (uploadChunk demo_env ''s1'' 1 [4, 5] None t);
        known = Inr \<lparr>cr_sessionId = ''s1'', cr_chunkIndex = 0,
                     cr_status = ''already_uploaded'',
                     cr_progress = Some \<lparr>p_uploadedChunks = 1, p_totalChunks = 2,
                                          p_uploadedBytes = Some 3, p_totalBytes = 5\<rparr>\<rparr>;
        r = \<lparr>cr_sessionId = ''s1'', cr_chunkIndex = 1, cr_status = ''uploaded'',
             cr_progress = Some \<lparr>p_uploadedChunks = 2, p_totalChunks = 2,
                                  p_uploadedBytes = Some 5, p_totalBytes = 5\<rparr>\<rparr>
    in 0 \<in> set (u_chunkSets t ''s1'')
       \<and> repost ''s1'' 0 [(demo_env, [4, 5], None), (demo_env, [4, 5], None)] t
           = ([known, known], t)
       \<and> entries ''s1'' 0 t = 1
       \<and> 1 \<notin> set (u_chunkSets t ''s1'')
       \<and> uploadChunk demo_env ''s1'' 1 [4, 5] None t = (Inr r, t2)
       \<and> staged (u_storage t2) ''s1'' 1 = Some [4, 5]
       \<and> 1 \<in> set (u_chunkSets t2 ''s1'')
       \<and> repost ''s1'' 1 [(demo_env, [4, 5], None)] t2
           = ([Inr (r\<lparr>cr_status := ''already_uploaded''\<rparr>)], t2)
       \<and> entries ''s1'' 1 t2 = 1
       \<and> recorded_once t)"
proof -
  let ?t = "run chunk0_posted no_sessions"
  let ?t2 = "snd (uploadChunk demo_env ''s1'' 1 [4, 5] None ?t)"
  let ?v = "cacheData ''s1'' (newUploadSession 1000 demo_fields)"
  let ?r = "\<lparr>cr_sessionId = ''s1'', cr_chunkIndex = 1, cr_status = ''uploaded'',
             cr_progress = Some \<lparr>p_uploadedChunks = 2, p_totalChunks = 2,
                                  p_uploadedBytes = Some 5, p_totalBytes = 5\<rparr>\<rparr>"
  have init: "u_sessions no_sessions = Map.empty"
    by (simp add: no_sessions_def)
  have cached: "u_sessionCache ?t ''s1'' = Some ?v"
    by code_simp
  have live: "getSession (e_now demo_env) ''s1'' ?t = (Some ?v, ?t)"
    using cached by (rule getSession_cached)
  have total: "sv_totalChunks ?v = 2"
    by code_simp
  have in0: "0 \<in> set (u_chunkSets ?t ''s1'')" and out1: "1 \<notin> set (u_chunkSets ?t ''s1'')"
    by code_simp+
  have res: "fst (uploadChunk demo_env ''s1'' 1 [4, 5] None ?t) = Inr ?r"
    by code_simp
  have up: "uploadChunk demo_env ''s1'' 1 [4, 5] None ?t = (Inr ?r, ?t2)"
    using res by (metis prod.collapse)
  have durable: "u_sessions ?t ''s1'' \<noteq> None"
    by code_simp
  have known: "fst (uploadChunk demo_env ''s1'' 0 [4, 5] None ?t) =
      Inr \<lparr>cr_sessionId = ''s1'', cr_chunkIndex = 0, cr_status = ''already_uploaded'',
           cr_progress = Some \<lparr>p_uploadedChunks = 1, p_totalChunks = 2,
                                p_uploadedBytes = Some 3, p_totalBytes = 5\<rparr>\<rparr>"
    by code_simp
  note t = uploadChunk_idempotent [OF init,
      where env = demo_env and sid = "''s1''" and s = ?t and session = ?v and ?s1.0 = ?t
        and i = 0 and chunkData = "[4, 5]" and h = None and posts = "[(demo_env, [4, 5], None)]"
        and j = 1 and t = ?t and r = ?r and ?t2.0 = ?t2 and events = chunk0_posted]
  have a: "\<exists>prog. repost ''s1'' 0 [(demo_env, [4, 5], None), (demo_env, [4, 5], None)] ?t =
            (replicate (Suc (length [(demo_env, [4, 5], None)]))
               (Inr \<lparr>cr_sessionId = ''s1'', cr_chunkIndex = 0,
                     cr_status = ''already_uploaded'', cr_progress = Some prog\<rparr>), ?t)"
    using t live total in0 by simp
  have a1: "entries ''s1'' 0 ?t = 1"
    using t live total in0 durable by simp
  have a': "repost ''s1'' 0 [(demo_env, [4, 5], None), (demo_env, [4, 5], None)] ?t =
            ([Inr \<lparr>cr_sessionId = ''s1'', cr_chunkIndex = 0, cr_status = ''already_uploaded'',
                   cr_progress = Some \<lparr>p_uploadedChunks = 1, p_totalChunks = 2,
                                        p_uploadedBytes = Some 3, p_totalBytes = 5\<rparr>\<rparr>,
              Inr \<lparr>cr_sessionId = ''s1'', cr_chunkIndex = 0, cr_status = ''already_uploaded'',
                   cr_progress = Some \<lparr>p_uploadedChunks = 1, p_totalChunks = 2,
                                        p_uploadedBytes = Some 3, p_totalBytes = 5\<rparr>\<rparr>], ?t)"
    using a known by (auto simp: numeral_2_eq_2 split: prod.splits)
  have b: "staged (u_storage ?t2) ''s1'' 1 = Some [4, 5]
       \<and> 1 \<in> set (u_chunkSets ?t2 ''s1'')
       \<and> repost ''s1'' 1 [(demo_env, [4, 5], None)] ?t2
           = ([Inr (?r\<lparr>cr_status := ''already_uploaded''\<rparr>)], ?t2)
       \<and> entries ''s1'' 1 ?t2 = 1
       \<and> recorded_once ?t"
    using t up out1 durable by simp
  show ?thesis
    using init in0 a' a1 out1 up b by (simp add: Let_def)
qed

subsection \<open>Hash mismatch at completion\<close>

lemma getStorageTier_hot: "getStorageTier uid st = HOT"
  by (simp add: getStorageTier_def split: option.splits)

text \<open>
  Claim C3 (an \<open>expectedHash\<close> that disagrees with the hash computed during assembly
  makes \<open>completeUpload\<close> delete the assembled object and mark the session failed with
  \<open>HASH_MISMATCH\<close>, with no File record and no change of the quota) does not hold of
  the code for an announced hash that is the computed hash followed by text that is not
  hexadecimal. \<open>verifyHash\<close> compares what \<open>Buffer.from(_, 'hex')\<close> decodes, and the
  decoding stops silently at the first pair that is not hexadecimal. The two-chunk
  upload is announced with \<open>aa11zz\<close> and assembles to an object whose hash is \<open>aa11\<close>:
  \<open>verifyHash\<close> answers \<open>true\<close>, the upload completes, the File record is created,
  the quota counts the file, the session is \<open>completed\<close> and the object stays in
  storage.
\<close>

theorem completeUpload_accepts_hash_with_trailing_text:
  "e_sha256 demo_env [1, 2, 3, 4, 5] = ''aa11''
   \<and> verifyHash ''aa11'' ''aa11zz''
   \<and> fst (completeUpload demo_env ''s1'' ''u1'' (demo_state (Some ''aa11zz''))) =
       Inr \<lparr>co_fileId = ''f9'', co_filename = ''a.txt'', co_size = 5, co_hash = ''aa11'',
            co_mimeType = ''text/plain'', co_expiresAt = Some 432001000\<rparr>
   \<and> map f_hash
         (u_files (snd (completeUpload demo_env ''s1'' ''u1'' (demo_state (Some ''aa11zz'')))))
       = [''aa11'']
   \<and> map_option q_files
         (u_quotas (snd (completeUpload demo_env ''s1'' ''u1'' (demo_state (Some ''aa11zz''))))
            ''u1'')
       = Some 1
   \<and> map_option q_storage
         (u_quotas (snd (completeUpload demo_env ''s1'' ''u1'' (demo_state (Some ''aa11zz''))))
            ''u1'')
       = Some 5
   \<and> map_option us_status
         (u_sessions (snd (completeUpload demo_env ''s1'' ''u1'' (demo_state (Some ''aa11zz''))))
            ''s1'')
       = Some Completed
   \<and> map_option us_expectedHash
         (u_sessions (snd (completeUpload demo_env ''s1'' ''u1'' (demo_state (Some ''aa11zz''))))
            ''s1'')
       = Some (Some ''aa11zz'')
   \<and> blobs (u_storage (snd (completeUpload demo_env ''s1'' ''u1''
                                 (demo_state (Some ''aa11zz'')))))
         (HOT, ''u1_1000_k3x9ab.txt'')
       = Some [1, 2, 3, 4, 5]"
  by code_simp

text \<open>
  What the hash check of \<open>completeUpload\<close> decides on. The session resolves, belongs to
  the caller and has all its chunks recorded; its durable record exists; assembly
  succeeds and the announced hash is not empty. If the bytes decoded from the announced
  hash differ from those decoded from the computed hash (both in lower case, decoding
  stopping at the first pair that is not hexadecimal), the call throws \<open>UploadError\<close>
  with status 400 and code \<open>HASH_MISMATCH\<close>, the assembled object is absent from
  storage, the durable session has status \<open>failed\<close> with error code \<open>HASH_MISMATCH\<close>,
  and the File collection and the quotas are as they were. If the decoded bytes are
  equal (and the computed hash is not empty), the upload completes: the File record is
  added, the quota of the user counts the file and the durable session is
  \<open>completed\<close>.
\<close>

lemma completeUpload_hash_check:
  assumes sess: "getSession (e_now env) sid st = (Some session, st1)"
    and own: "sv_userId session = uid"
    and complete: "int (length (u_chunkSets st sid)) = sv_totalChunks session"
    and db: "u_sessions st sid = Some doc"
    and asm: "assembleChunks (e_sha256 env) sid
                (generateStorageKey env uid (sv_filename session))
                (sv_totalChunks session) HOT (u_storage st) = (Inr result, sto)"
    and expected: "sv_expectedHash session = Some h" "h \<noteq> []"
  shows "(hex_decode (map lower_ascii (a_hash result)) \<noteq> hex_decode (map lower_ascii h) \<longrightarrow>
          (\<exists>st'. completeUpload env sid uid st =
              (Inl (UploadError ''File hash verification failed'' (Some 400)
                      (Some ''HASH_MISMATCH'')), st') \<and>
            blobs (u_storage st') (HOT, generateStorageKey env uid (sv_filename session)) = None \<and>
            (\<exists>failed er. u_sessions st' sid = Some failed \<and> us_status failed = Failed \<and>
                 us_error failed = Some er \<and> se_code er = ''HASH_MISMATCH'' \<and>
                 se_message er = ''File hash verification failed'') \<and>
            u_files st' = u_files st \<and>
            u_quotas st' = u_quotas st))
       \<and> (a_hash result \<noteq> [] \<and>
          hex_decode (map lower_ascii (a_hash result)) = hex_decode (map lower_ascii h) \<longrightarrow>
          (\<exists>r st'. completeUpload env sid uid st = (Inr r, st') \<and>
            u_files st' =
              u_files st @
                [newFile env uid (generateStorageKey env uid (sv_filename session)) session
                   result HOT (getExpiryDate env uid st)] \<and>
            u_quotas st' uid =
              Some (addFile (e_now env) (u_users st) uid (a_size result)
                      (case u_quotas st uid of None \<Rightarrow> newQuota (e_today env) | Some q \<Rightarrow> q)) \<and>
            map_option us_status (u_sessions st' sid) = Some Completed))"
proof (intro conjI impI)
  have fr: "u_sessions st1 = u_sessions st" "u_chunkSets st1 = u_chunkSets st"
    "u_storage st1 = u_storage st" "u_files st1 = u_files st" "u_quotas st1 = u_quotas st"
    "u_users st1 = u_users st"
    using getSession_frame [OF sess] by simp_all
  have len: "int (length (getCompletedChunks sid st1)) = sv_totalChunks session"
    using complete fr by (simp add: getCompletedChunks_def)
  {
    assume differ: "hex_decode (map lower_ascii (a_hash result)) \<noteq> hex_decode (map lower_ascii h)"
    then have no: "\<not> verifyHash (a_hash result) h"
      by (simp add: verifyHash_def)
    show "\<exists>st'. completeUpload env sid uid st =
              (Inl (UploadError ''File hash verification failed'' (Some 400)
                      (Some ''HASH_MISMATCH'')), st') \<and>
            blobs (u_storage st') (HOT, generateStorageKey env uid (sv_filename session)) = None \<and>
            (\<exists>failed er. u_sessions st' sid = Some failed \<and> us_status failed = Failed \<and>
                 us_error failed = Some er \<and> se_code er = ''HASH_MISMATCH'' \<and>
                 se_message er = ''File hash verification failed'') \<and>
            u_files st' = u_files st \<and>
            u_quotas st' = u_quotas st"
      using sess own len db asm expected no fr
      by (simp add: completeUpload_def Let_def getStorageTier_hot truthy_def
          completeFailed_def markFailed_def error_code_def error_message_def
          storage_delete_def deleteChunks_def)
  }
  {
    assume agree: "a_hash result \<noteq> [] \<and>
          hex_decode (map lower_ascii (a_hash result)) = hex_decode (map lower_ascii h)"
    then have yes: "verifyHash (a_hash result) h"
      using expected by (simp add: verifyHash_def)
    show "\<exists>r st'. completeUpload env sid uid st = (Inr r, st') \<and>
            u_files st' =
              u_files st @
                [newFile env uid (generateStorageKey env uid (sv_filename session)) session
                   result HOT (getExpiryDate env uid st)] \<and>
            u_quotas st' uid =
              Some (addFile (e_now env) (u_users st) uid (a_size result)
                      (case u_quotas st uid of None \<Rightarrow> newQuota (e_today env) | Some q \<Rightarrow> q)) \<and>
            map_option us_status (u_sessions st' sid) = Some Completed"
      using sess own len db asm expected yes fr
      by (simp add: completeUpload_def Let_def getStorageTier_hot truthy_def
          deleteSessionCache_def markCompleted_def startAssembly_def getExpiryDate_def)
  }
qed

text \<open>
  The two-chunk upload, whose assembled object hashes to \<open>aa11\<close>: announced with
  \<open>00ff\<close> it fails, announced with \<open>AA11\<close> it completes.
\<close>

lemma completeUpload_hash_check_example:
  "(let out = completeUpload demo_env ''s1'' ''u1'' (demo_state (Some ''00ff''))
    in hex_decode (map lower_ascii ''aa11'') \<noteq> hex_decode (map lower_ascii ''00ff'')
       \<and> fst out =
           Inl (UploadError ''File hash verification failed'' (Some 400) (Some ''HASH_MISMATCH''))
       \<and> blobs (u_storage (snd out)) (HOT, ''u1_1000_k3x9ab.txt'') = None
       \<and> (\<exists>failed er.
            u_sessions (snd out) ''s1'' = Some failed \<and> us_status failed = Failed \<and>
            us_error failed = Some er \<and> se_code er = ''HASH_MISMATCH'' \<and>
            se_message er = ''File hash verification failed'')
       \<and> u_files (snd out) = []
       \<and> u_quotas (snd out) ''u1'' = None)
   \<and> (let out = completeUpload demo_env ''s1'' ''u1'' (demo_state (Some ''AA11''))
      in hex_decode (map lower_ascii ''aa11'') = hex_decode (map lower_ascii ''AA11'')
         \<and> (\<exists>r. fst out = Inr r)
         \<and> map f_hash (u_files (snd out)) = [''aa11'']
         \<and> map_option q_files (u_quotas (snd out) ''u1'') = Some 1
         \<and> map_option us_status (u_sessions (snd out) ''s1'') = Some Completed)"
proof -
  let ?bad = "demo_state (Some ''00ff'')"
  let ?good = "demo_state (Some ''AA11'')"
  let ?vbad = "cacheData ''s1'' (demo_session (Some ''00ff''))"
  let ?vgood = "cacheData ''s1'' (demo_session (Some ''AA11''))"
  have key: "\<And>e. generateStorageKey demo_env ''u1''
                 (sv_filename (cacheData ''s1'' (demo_session e))) = ''u1_1000_k3x9ab.txt''"
    by (simp add: cacheData_def demo_session_def) code_simp
  have sess: "\<And>e. getSession (e_now demo_env) ''s1'' (demo_state e)
                = (Some (cacheData ''s1'' (demo_session e)), demo_state e)"
    by (simp add: getSession_def demo_state_def)
  have own: "\<And>e. sv_userId (cacheData ''s1'' (demo_session e)) = ''u1''"
    by (simp add: cacheData_def demo_session_def)
  have complete: "\<And>e. int (length (u_chunkSets (demo_state e) ''s1''))
                     = sv_totalChunks (cacheData ''s1'' (demo_session e))"
    by (simp add: cacheData_def demo_session_def demo_state_def)
  have db: "\<And>e. u_sessions (demo_state e) ''s1'' = Some (demo_session e)"
    by (simp add: demo_state_def)
  have res_bad: "fst (assembleChunks (e_sha256 demo_env) ''s1''
                    (generateStorageKey demo_env ''u1'' (sv_filename ?vbad))
                    (sv_totalChunks ?vbad) HOT (u_storage ?bad))
               = Inr \<lparr>a_size = 5, a_hash = ''aa11''\<rparr>"
    by code_simp
  have asm_bad: "assembleChunks (e_sha256 demo_env) ''s1''
                (generateStorageKey demo_env ''u1'' (sv_filename ?vbad))
                (sv_totalChunks ?vbad) HOT (u_storage ?bad)
               = (Inr \<lparr>a_size = 5, a_hash = ''aa11''\<rparr>,
                  snd (assembleChunks (e_sha256 demo_env) ''s1''
                    (generateStorageKey demo_env ''u1'' (sv_filename ?vbad))
                    (sv_totalChunks ?vbad) HOT (u_storage ?bad)))"
    using res_bad by (metis prod.collapse)
  have res_good: "fst (assembleChunks (e_sha256 demo_env) ''s1''
                    (generateStorageKey demo_env ''u1'' (sv_filename ?vgood))
                    (sv_totalChunks ?vgood) HOT (u_storage ?good))
               = Inr \<lparr>a_size = 5, a_hash = ''aa11''\<rparr>"
    by code_simp
  have asm_good: "assembleChunks (e_sha256 demo_env) ''s1''
                (generateStorageKey demo_env ''u1'' (sv_filename ?vgood))
                (sv_totalChunks ?vgood) HOT (u_storage ?good)
               = (Inr \<lparr>a_size = 5, a_hash = ''aa11''\<rparr>,
                  snd (assembleChunks (e_sha256 demo_env) ''s1''
                    (generateStorageKey demo_env ''u1'' (sv_filename ?vgood))
                    (sv_totalChunks ?vgood) HOT (u_storage ?good)))"
    using res_good by (metis prod.collapse)
  have expected: "\<And>x. sv_expectedHash (cacheData ''s1'' (demo_session (Some x))) = Some x"
    by (simp add: cacheData_def demo_session_def)
  have differ: "hex_decode (map lower_ascii ''aa11'') \<noteq> hex_decode (map lower_ascii ''00ff'')"
    by code_simp
  have agree: "hex_decode (map lower_ascii ''aa11'') = hex_decode (map lower_ascii ''AA11'')"
    by code_simp
  have files: "\<And>e. u_files (demo_state e) = []"
    and quotas: "\<And>e. u_quotas (demo_state e) ''u1'' = None"
    by (simp_all add: demo_state_def)
  note bad = completeUpload_hash_check [OF sess own complete db asm_bad expected]
  note good = completeUpload_hash_check [OF sess own complete db asm_good expected]
  have 1: "\<exists>st'. completeUpload demo_env ''s1'' ''u1'' ?bad =
              (Inl (UploadError ''File hash verification failed'' (Some 400)
                      (Some ''HASH_MISMATCH'')), st') \<and>
            blobs (u_storage st') (HOT, ''u1_1000_k3x9ab.txt'') = None \<and>
            (\<exists>failed er. u_sessions st' ''s1'' = Some failed \<and> us_status failed = Failed \<and>
                 us_error failed = Some er \<and> se_code er = ''HASH_MISMATCH'' \<and>
                 se_message er = ''File hash verification failed'') \<and>
            u_files st' = [] \<and>
            u_quotas st' = u_quotas ?bad"
    using bad differ key files by simp
  have 2: "\<exists>r st'. completeUpload demo_env ''s1'' ''u1'' ?good = (Inr r, st')"
    using good agree by auto
  have 3: "(let out = completeUpload demo_env ''s1'' ''u1'' (demo_state (Some ''AA11''))
      in map f_hash (u_files (snd out)) = [''aa11'']
         \<and> map_option q_files (u_quotas (snd out) ''u1'') = Some 1
         \<and> map_option us_status (u_sessions (snd out) ''s1'') = Some Completed)"
    by code_simp
  show ?thesis
    using 1 2 3 differ agree quotas by (auto simp: Let_def)
qed

subsection \<open>Sessions that are no longer live\<close>

text \<open>
  Claim C10. On a cache miss \<open>_getSession\<close> finds a session exactly when its durable
  record has status \<open>pending\<close> or \<open>uploading\<close> and \<open>expiresAt\<close> in the future. So with
  the cache entry gone and a durable status of \<open>assembling\<close>, \<open>completed\<close>, \<open>failed\<close>
  or \<open>expired\<close>, each of \<open>uploadChunk\<close>, \<open>getUploadStatus\<close>, \<open>completeUpload\<close> and
  \<open>resumeUpload\<close> throws \<open>SessionExpiredError\<close> and changes nothing; and after a
  successful \<open>completeUpload\<close> a status query, at any later time, throws
  \<open>SessionExpiredError\<close>.
\<close>

theorem dead_session_is_session_expired:
  "(u_sessionCache st sid = None \<longrightarrow>
      (fst (getSession now sid st) \<noteq> None) =
        (\<exists>db. u_sessions st sid = Some db \<and>
              (us_status db = Pending \<or> us_status db = Uploading) \<and> us_expiresAt db > now))
   \<and> (u_sessionCache st sid = None \<and> u_sessions st sid = Some dead \<and>
        (us_status dead = Assembling \<or> us_status dead = Completed \<or>
         us_status dead = Failed \<or> us_status dead = Expired) \<longrightarrow>
        uploadChunk env sid i chunkData h st = (Inl (SessionExpiredError sid), st) \<and>
        getUploadStatus env sid st = (Inl (SessionExpiredError sid), st) \<and>
        completeUpload env sid uid st = (Inl (SessionExpiredError sid), st) \<and>
        resumeUpload env sid uid st = (Inl (SessionExpiredError sid), st))
   \<and> (completeUpload env sid uid st = (Inr r, st') \<longrightarrow>
        getUploadStatus env' sid st' = (Inl (SessionExpiredError sid), st'))"
proof (intro conjI impI)
  assume "u_sessionCache st sid = None"
  then show "(fst (getSession now sid st) \<noteq> None) =
        (\<exists>db. u_sessions st sid = Some db \<and>
              (us_status db = Pending \<or> us_status db = Uploading) \<and> us_expiresAt db > now)"
    by (rule getSession_miss_iff)
next
  assume a: "u_sessionCache st sid = None \<and> u_sessions st sid = Some dead \<and>
        (us_status dead = Assembling \<or> us_status dead = Completed \<or>
         us_status dead = Failed \<or> us_status dead = Expired)"
  then have g: "\<And>t. getSession t sid st = (None, st)"
    by (auto intro: getSession_dead)
  show "uploadChunk env sid i chunkData h st = (Inl (SessionExpiredError sid), st)"
    by (simp add: uploadChunk_def g)
  show "getUploadStatus env sid st = (Inl (SessionExpiredError sid), st)"
    by (simp add: getUploadStatus_def g)
  show "completeUpload env sid uid st = (Inl (SessionExpiredError sid), st)"
    by (simp add: completeUpload_def g)
  show "resumeUpload env sid uid st = (Inl (SessionExpiredError sid), st)"
    by (simp add: resumeUpload_def g)
next
  assume c: "completeUpload env sid uid st = (Inr r, st')"
  have "getSession (e_now env') sid st' = (None, st')"
    using completeUpload_success_state [OF c]
    by (auto intro: getSession_dead getSession_absent)
  then show "getUploadStatus env' sid st' = (Inl (SessionExpiredError sid), st')"
    by (simp add: getUploadStatus_def)
qed

lemma demo_complete:
  "fst (completeUpload demo_env ''s1'' ''u1'' (demo_state None)) =
     Inr \<lparr>co_fileId = ''f9'', co_filename = ''a.txt'', co_size = 5, co_hash = ''aa11'',
          co_mimeType = ''text/plain'', co_expiresAt = Some 432001000\<rparr>"
  by code_simp

lemma demo_completed_state:
  "u_sessionCache (snd (completeUpload demo_env ''s1'' ''u1'' (demo_state None))) ''s1'' = None \<and>
   map_option us_status
     (u_sessions (snd (completeUpload demo_env ''s1'' ''u1'' (demo_state None))) ''s1'')
     = Some Completed"
  by code_simp

text \<open>
  The two-chunk upload without announced hash is completed; the session is then gone
  from the cache and durable with status \<open>completed\<close>, and every operation on it throws
  \<open>SessionExpiredError\<close>.
\<close>

theorem dead_session_witness:
  "(let done = snd (completeUpload demo_env ''s1'' ''u1'' (demo_state None))
    in fst (completeUpload demo_env ''s1'' ''u1'' (demo_state None)) =
         Inr \<lparr>co_fileId = ''f9'', co_filename = ''a.txt'', co_size = 5, co_hash = ''aa11'',
              co_mimeType = ''text/plain'', co_expiresAt = Some 432001000\<rparr> \<and>
       u_sessionCache done ''s1'' = None \<and>
       map_option us_status (u_sessions done ''s1'') = Some Completed \<and>
       fst (getSession 2000 ''s1'' done) = None \<and>
       fst (uploadChunk demo_env ''s1'' 0 [1, 2, 3] None done)
         = Inl (SessionExpiredError ''s1'') \<and>
       fst (getUploadStatus demo_env ''s1'' done) = Inl (SessionExpiredError ''s1'') \<and>
       fst (completeUpload demo_env ''s1'' ''u1'' done) = Inl (SessionExpiredError ''s1'') \<and>
       fst (resumeUpload demo_env ''s1'' ''u1'' done) = Inl (SessionExpiredError ''s1''))"
proof -
  let ?done = "snd (completeUpload demo_env ''s1'' ''u1'' (demo_state None))"
  have c: "completeUpload demo_env ''s1'' ''u1'' (demo_state None) =
          (Inr \<lparr>co_fileId = ''f9'', co_filename = ''a.txt'', co_size = 5, co_hash = ''aa11'',
                co_mimeType = ''text/plain'', co_expiresAt = Some 432001000\<rparr>, ?done)"
    using demo_complete by (metis prod.collapse)
  have miss: "u_sessionCache ?done ''s1'' = None"
    using demo_completed_state by simp
  obtain dead where dead: "u_sessions ?done ''s1'' = Some dead" "us_status dead = Completed"
    using demo_completed_state by auto
  note t = dead_session_is_session_expired
    [where st = ?done and sid = "''s1''" and now = 2000 and dead = dead and env = demo_env
       and i = 0 and chunkData = "[1, 2, 3]" and h = None and uid = "''u1''"]
  have "\<not> (\<exists>db. u_sessions ?done ''s1'' = Some db \<and>
              (us_status db = Pending \<or> us_status db = Uploading) \<and> us_expiresAt db > 2000)"
    using dead by auto
  then have "fst (getSession 2000 ''s1'' ?done) = None"
    using t miss by blast
  moreover have "uploadChunk demo_env ''s1'' 0 [1, 2, 3] None ?done
                   = (Inl (SessionExpiredError ''s1''), ?done) \<and>
        getUploadStatus demo_env ''s1'' ?done = (Inl (SessionExpiredError ''s1''), ?done) \<and>
        completeUpload demo_env ''s1'' ''u1'' ?done = (Inl (SessionExpiredError ''s1''), ?done) \<and>
        resumeUpload demo_env ''s1'' ''u1'' ?done = (Inl (SessionExpiredError ''s1''), ?done)"
    using t miss dead by blast
  ultimately show ?thesis
    using demo_complete demo_completed_state by (simp add: Let_def)
qed

end
